theory Spec2Isabelle
  imports Main
begin

section \<open>Data model\<close>

text \<open>
  Configuration documents are the values a YAML loader produces. Dictionaries of
  configuration data are association lists read with \<open>map_of\<close>; the compiled schema and
  the \<open>needs\<close> of a task are maps, compared extensionally as Python compares dicts.
  Configuration values are trees: two pipeline entries are never the same object.
\<close>

datatype yaml =
    YNull
  | YBool bool
  | YInt int
  | YStr string
  | YList "yaml list"
  | YDict "(string \<times> yaml) list"

datatype error =
    KeyError
  | TypeError
  | AttributeError
  | ComponentNotFound
  | PolicyNotFound
  | YamlError

text \<open>
  The component classes the step-kind table of \<open>nlu_config_to_train_graph_schema\<close>
  names, and any other class the component registry may return.
\<close>

datatype component_class =
    WhitespaceTokenizer
  | RegexFeaturizer
  | LexicalSyntacticFeaturizer
  | CountVectorsFeaturizer
  | DIETClassifier
  | ResponseSelector
  | EntitySynonymMapper
  | OtherComponent string

text \<open>The \<open>name\<close> attribute of a component class.\<close>

fun class_name :: "component_class \<Rightarrow> string" where
  "class_name WhitespaceTokenizer = ''WhitespaceTokenizer''"
| "class_name RegexFeaturizer = ''RegexFeaturizer''"
| "class_name LexicalSyntacticFeaturizer = ''LexicalSyntacticFeaturizer''"
| "class_name CountVectorsFeaturizer = ''CountVectorsFeaturizer''"
| "class_name DIETClassifier = ''DIETClassifier''"
| "class_name ResponseSelector = ''ResponseSelector''"
| "class_name EntitySynonymMapper = ''EntitySynonymMapper''"
| "class_name (OtherComponent n) = n"

text \<open>
  A policy class is known to the compiler by its identity and by the parameter names of
  its \<open>train\<close> method, which \<open>inspect.signature\<close> reads.
\<close>

datatype policy_class = PolicyClass (policy_id: string) (train_parameters: "string list")

datatype impl =
    TrainingDataReader
  | DomainReader
  | StoryGraphReader
  | StoryToTrainingDataConverter
  | TrackerGenerator
  | MessageToE2EFeatureConverter
  | Component component_class
  | Policy policy_class

record task =
  uses :: impl
  fn :: string
  config :: "(string \<times> yaml) list"
  needs :: "string \<rightharpoonup> string"
  persist :: "bool option"

type_synonym schema = "string \<rightharpoonup> task"

datatype step_type = Process | Train | TrainProcess

text \<open>
  The collaborators outside the module: the component registry
  (\<open>registry.get_component_class\<close>), the policy registry
  (\<open>rasa.core.registry.policy_from_module_path\<close>) and the YAML loader. A lookup that
  raises is \<open>None\<close>.
\<close>

record env =
  get_component_class :: "string \<Rightarrow> component_class option"
  policy_from_module_path :: "string \<Rightarrow> policy_class option"
  read_yaml :: "string \<Rightarrow> yaml option"

section \<open>Python primitives\<close>

text \<open>\<open>str(i)\<close> for a non-negative integer, as the f-strings format the index.\<close>

definition digit_char :: "nat \<Rightarrow> char" where
  "digit_char d = ''0123456789'' ! (d mod 10)"

function string_of_nat :: "nat \<Rightarrow> string" where
  "string_of_nat n =
     (if n < 10 then [digit_char n]
      else string_of_nat (n div 10) @ [digit_char (n mod 10)])"
  by pat_completeness auto
termination
  by (relation "measure id") auto

text \<open>\<open>value[key]\<close>: only a dict can be subscripted by a string.\<close>

fun subscript :: "yaml \<Rightarrow> string \<Rightarrow> error + yaml" where
  "subscript (YDict kvs) k =
     (case map_of kvs k of None \<Rightarrow> Inl KeyError | Some v \<Rightarrow> Inr v)"
| "subscript _ k = Inl TypeError"

text \<open>
  Iteration: a list yields its items, a dict its keys, a string its characters; the other
  values are not iterable.
\<close>

fun iterate :: "yaml \<Rightarrow> error + yaml list" where
  "iterate (YList xs) = Inr xs"
| "iterate (YDict kvs) = Inr (map (\<lambda>kv. YStr (fst kv)) kvs)"
| "iterate (YStr s) = Inr (map (\<lambda>c. YStr [c]) s)"
| "iterate _ = Inl TypeError"

text \<open>
  \<open>value.pop(key)\<close>: a dict gives the value and loses the key; \<open>list.pop\<close> refuses a
  string index; the other values have no \<open>pop\<close>.
\<close>

fun pop :: "yaml \<Rightarrow> string \<Rightarrow> error + (yaml \<times> (string \<times> yaml) list)" where
  "pop (YDict kvs) k =
     (case map_of kvs k of
        None \<Rightarrow> Inl KeyError
      | Some v \<Rightarrow> Inr (v, filter (\<lambda>kv. fst kv \<noteq> k) kvs))"
| "pop (YList xs) k = Inl TypeError"
| "pop _ k = Inl AttributeError"

text \<open>
  Modelled from the spec: \<open>graph.fill_defaults\<close> is not in the sources. The spec's
  defaulting pass fills every missing optional field of every task with its fixed
  default, and the one optional field is \<open>persist\<close>, true when absent.
\<close>

definition fill_task :: "task \<Rightarrow> task" where
  "fill_task t = (case persist t of None \<Rightarrow> t\<lparr>persist := Some True\<rparr> | Some b \<Rightarrow> t)"

definition fill_defaults :: "schema \<Rightarrow> schema" where
  "fill_defaults g = (\<lambda>k. map_option fill_task (g k))"

section \<open>Step builders\<close>

text \<open>\<open>name if name else component_class.name\<close> and \<open>config if config else {}\<close>.\<close>

definition name_or_class :: "string option \<Rightarrow> component_class \<Rightarrow> string" where
  "name_or_class name component_class =
     (case name of
        None \<Rightarrow> class_name component_class
      | Some n \<Rightarrow> if n \<noteq> [] then n else class_name component_class)"

definition config_or_empty :: "(string \<times> yaml) list option \<Rightarrow> (string \<times> yaml) list" where
  "config_or_empty cfg = (case cfg of None \<Rightarrow> [] | Some c \<Rightarrow> c)"

definition train_and_process_component ::
  "component_class \<Rightarrow> string \<Rightarrow> (string \<times> yaml) list option \<Rightarrow> string option \<Rightarrow>
   string \<Rightarrow> string \<Rightarrow> string \<Rightarrow> schema \<times> string" where
  "train_and_process_component component_class input_task_name cfg name
     train_function process_function input_data_param_name =
     (let nm = name_or_class name component_class;
          train_task_name = ''train_'' @ nm;
          process_task_name = ''process_'' @ nm;
          cfg' = config_or_empty cfg
      in (Map.empty
            (train_task_name \<mapsto>
               \<lparr>uses = Component component_class, fn = train_function, config = cfg',
                needs = [input_data_param_name \<mapsto> input_task_name], persist = None\<rparr>,
             process_task_name \<mapsto>
               \<lparr>uses = Component component_class, fn = process_function, config = cfg',
                needs = [''resource_name'' \<mapsto> train_task_name,
                         input_data_param_name \<mapsto> input_task_name],
                persist = None\<rparr>),
          process_task_name))"

definition train_component ::
  "component_class \<Rightarrow> string \<Rightarrow> (string \<times> yaml) list option \<Rightarrow> string option \<Rightarrow>
   string \<Rightarrow> string \<Rightarrow> schema \<times> string" where
  "train_component component_class input_task_name cfg name
     train_function input_data_param_name =
     (let nm = name_or_class name component_class;
          train_task_name = ''train_'' @ nm;
          cfg' = config_or_empty cfg
      in (Map.empty
            (train_task_name \<mapsto>
               \<lparr>uses = Component component_class, fn = train_function, config = cfg',
                needs = [input_data_param_name \<mapsto> input_task_name], persist = None\<rparr>),
          input_task_name))"

definition process_component ::
  "component_class \<Rightarrow> string \<Rightarrow> (string \<times> yaml) list option \<Rightarrow> string option \<Rightarrow>
   string \<Rightarrow> string \<Rightarrow> schema \<times> string" where
  "process_component component_class input_task_name cfg name
     process_function input_data_param_name =
     (let nm = name_or_class name component_class;
          process_task_name = ''process_'' @ nm;
          cfg' = config_or_empty cfg
      in (Map.empty
            (process_task_name \<mapsto>
               \<lparr>uses = Component component_class, fn = process_function, config = cfg',
                needs = [input_data_param_name \<mapsto> input_task_name],
                persist = Some False\<rparr>),
          process_task_name))"

section \<open>The NLU pipeline compiler\<close>

text \<open>The table \<open>meta\<close>; a class outside it is a \<open>KeyError\<close>.\<close>

fun meta :: "component_class \<Rightarrow> step_type option" where
  "meta WhitespaceTokenizer = Some Process"
| "meta RegexFeaturizer = Some TrainProcess"
| "meta LexicalSyntacticFeaturizer = Some TrainProcess"
| "meta CountVectorsFeaturizer = Some TrainProcess"
| "meta DIETClassifier = Some Train"
| "meta ResponseSelector = Some Train"
| "meta EntitySynonymMapper = Some Train"
| "meta (OtherComponent n) = None"

text \<open>
  The dispatch table of builders; the call passes four keyword arguments, the function
  names and the input parameter name keep their defaults.
\<close>

definition builder ::
  "step_type \<Rightarrow> component_class \<Rightarrow> string \<Rightarrow> (string \<times> yaml) list option \<Rightarrow>
   string option \<Rightarrow> schema \<times> string" where
  "builder step component_class input_task_name cfg name =
     (case step of
        Process \<Rightarrow>
          process_component component_class input_task_name cfg name
            ''process_training_data'' ''training_data''
      | Train \<Rightarrow>
          train_component component_class input_task_name cfg name
            ''train'' ''training_data''
      | TrainProcess \<Rightarrow>
          train_and_process_component component_class input_task_name cfg name
            ''train'' ''process_training_data'' ''training_data'')"

definition unique_name :: "string option \<Rightarrow> string \<Rightarrow> nat \<Rightarrow> string" where
  "unique_name component_namespace component_name i =
     (let u = component_name @ ''_'' @ string_of_nat i
      in case component_namespace of
           None \<Rightarrow> u
         | Some ns \<Rightarrow> if ns \<noteq> [] then ns @ ''_'' @ u else u)"

text \<open>
  One pass of the loop body on the entry at index \<open>i\<close>, from the accumulated graph and
  the current output task. A name that is not a string is refused by the registry.
\<close>

definition nlu_step ::
  "env \<Rightarrow> string option \<Rightarrow> bool \<Rightarrow> nat \<Rightarrow> yaml \<Rightarrow> schema \<times> string \<Rightarrow>
   error + (schema \<times> string)" where
  "nlu_step e component_namespace only_process i component st =
     (case pop component ''name'' of
        Inl err \<Rightarrow> Inl err
      | Inr (component_name, rest) \<Rightarrow>
          (case component_name of
             YStr nm \<Rightarrow>
               (case get_component_class e nm of
                  None \<Rightarrow> Inl ComponentNotFound
                | Some component_class \<Rightarrow>
                    (case meta component_class of
                       None \<Rightarrow> Inl KeyError
                     | Some step \<Rightarrow>
                         if step = Train \<and> only_process then Inr st
                         else
                           (let (component_def, out) =
                                  builder step component_class (snd st)
                                    (Some [(''component_config'', YDict rest)])
                                    (Some (unique_name component_namespace nm i))
                            in Inr (fst st ++ component_def, out))))
           | _ \<Rightarrow> Inl TypeError))"

fun nlu_loop ::
  "env \<Rightarrow> string option \<Rightarrow> bool \<Rightarrow> nat \<Rightarrow> yaml list \<Rightarrow> schema \<times> string \<Rightarrow>
   error + (schema \<times> string)" where
  "nlu_loop e component_namespace only_process i [] st = Inr st"
| "nlu_loop e component_namespace only_process i (component # cs) st =
     (case nlu_step e component_namespace only_process i component st of
        Inl err \<Rightarrow> Inl err
      | Inr st' \<Rightarrow> nlu_loop e component_namespace only_process (Suc i) cs st')"

definition load_data_task :: "string \<Rightarrow> task" where
  "load_data_task project =
     \<lparr>uses = TrainingDataReader, fn = ''read'', config = [(''project'', YStr project)],
      needs = Map.empty, persist = Some False\<rparr>"

definition nlu_start :: "string \<Rightarrow> string option \<Rightarrow> schema \<times> string" where
  "nlu_start project input_task =
     (case input_task of
        None \<Rightarrow> ([''load_data'' \<mapsto> load_data_task project], ''load_data'')
      | Some t \<Rightarrow>
          if t \<noteq> [] then (Map.empty, t)
          else ([''load_data'' \<mapsto> load_data_task project], ''load_data''))"

definition nlu_config_to_train_graph_schema ::
  "env \<Rightarrow> string \<Rightarrow> yaml \<Rightarrow> string option \<Rightarrow> string option \<Rightarrow> bool \<Rightarrow>
   error + (schema \<times> string)" where
  "nlu_config_to_train_graph_schema e project cfg component_namespace input_task only_process =
     (case subscript cfg ''pipeline'' of
        Inl err \<Rightarrow> Inl err
      | Inr pipeline \<Rightarrow>
          (case iterate pipeline of
             Inl err \<Rightarrow> Inl err
           | Inr nlu_pipeline \<Rightarrow>
               (case nlu_loop e component_namespace only_process 0 nlu_pipeline
                       (nlu_start project input_task) of
                  Inl err \<Rightarrow> Inl err
                | Inr (nlu_train_graph, last_component_out) \<Rightarrow>
                    Inr (fill_defaults nlu_train_graph, last_component_out))))"

section \<open>The Core compiler\<close>

definition core_start :: "string \<Rightarrow> schema" where
  "core_start project =
     [''load_domain'' \<mapsto>
        \<lparr>uses = DomainReader, fn = ''read'', config = [(''project'', YStr project)],
         needs = Map.empty, persist = None\<rparr>,
      ''load_stories'' \<mapsto>
        \<lparr>uses = StoryGraphReader, fn = ''read'', config = [(''project'', YStr project)],
         needs = Map.empty, persist = Some False\<rparr>,
      ''generate_trackers'' \<mapsto>
        \<lparr>uses = TrackerGenerator, fn = ''generate'', config = [],
         needs = [''domain'' \<mapsto> ''load_domain'', ''story_graph'' \<mapsto> ''load_stories''],
         persist = Some False\<rparr>]"

text \<open>The task the loop writes for one policy, before the probe for \<open>e2e_features\<close>.\<close>

definition policy_task :: "policy_class \<Rightarrow> (string \<times> yaml) list \<Rightarrow> task" where
  "policy_task policy_class policy =
     \<lparr>uses = Policy policy_class, fn = ''train'', config = policy,
      needs = [''training_trackers'' \<mapsto> ''generate_trackers'', ''domain'' \<mapsto> ''load_domain''],
      persist = None\<rparr>"

text \<open>
  One pass of the policy loop at index \<open>i\<close>, on the graph, the policy names so far and
  the flag \<open>e2e\<close>.
\<close>

definition policy_step ::
  "env \<Rightarrow> nat \<Rightarrow> yaml \<Rightarrow> schema \<times> string list \<times> bool \<Rightarrow>
   error + (schema \<times> string list \<times> bool)" where
  "policy_step e i policy st =
     (case st of (core_train_graph, policy_names, e2e) \<Rightarrow>
        (case pop policy ''name'' of
           Inl err \<Rightarrow> Inl err
         | Inr (policy_name, rest) \<Rightarrow>
             (case policy_name of
                YStr nm \<Rightarrow>
                  (let unique_policy_name = nm @ ''_'' @ string_of_nat i
                   in case policy_from_module_path e nm of
                        None \<Rightarrow> Inl PolicyNotFound
                      | Some policy_class \<Rightarrow>
                          if ''e2e_features'' \<in> set (train_parameters policy_class)
                          then Inr (core_train_graph ++
                                      [unique_policy_name \<mapsto>
                                         (policy_task policy_class rest)
                                           \<lparr>needs := (needs (policy_task policy_class rest))
                                              (''e2e_features'' \<mapsto> ''create_e2e_lookup'')\<rparr>],
                                    policy_names @ [unique_policy_name], True)
                          else Inr (core_train_graph ++
                                      [unique_policy_name \<mapsto> policy_task policy_class rest],
                                    policy_names @ [unique_policy_name], e2e))
              | _ \<Rightarrow> Inl TypeError)))"

fun policy_loop ::
  "env \<Rightarrow> nat \<Rightarrow> yaml list \<Rightarrow> schema \<times> string list \<times> bool \<Rightarrow>
   error + (schema \<times> string list \<times> bool)" where
  "policy_loop e i [] st = Inr st"
| "policy_loop e i (policy # ps) st =
     (case policy_step e i policy st of
        Inl err \<Rightarrow> Inl err
      | Inr st' \<Rightarrow> policy_loop e (Suc i) ps st')"

definition convert_stories_task :: task where
  "convert_stories_task =
     \<lparr>uses = StoryToTrainingDataConverter, fn = ''convert_for_training'', config = [],
      needs = [''story_graph'' \<mapsto> ''load_stories''], persist = Some False\<rparr>"

definition e2e_lookup_task :: "string \<Rightarrow> task" where
  "e2e_lookup_task nlu_out =
     \<lparr>uses = MessageToE2EFeatureConverter, fn = ''convert'', config = [],
      needs = [''training_data'' \<mapsto> nlu_out], persist = Some False\<rparr>"

definition core_config_to_train_graph_schema ::
  "env \<Rightarrow> string \<Rightarrow> yaml \<Rightarrow> error + (schema \<times> string list)" where
  "core_config_to_train_graph_schema e project cfg =
     (case subscript cfg ''policies'' of
        Inl err \<Rightarrow> Inl err
      | Inr pv \<Rightarrow>
          (case iterate pv of
             Inl err \<Rightarrow> Inl err
           | Inr policies \<Rightarrow>
               (case policy_loop e 0 policies (core_start project, [], False) of
                  Inl err \<Rightarrow> Inl err
                | Inr (core_train_graph, policy_names, e2e) \<Rightarrow>
                    if e2e then
                      (case nlu_config_to_train_graph_schema e project cfg
                              (Some ''core'') (Some ''convert_stories_for_nlu'') True of
                         Inl err \<Rightarrow> Inl err
                       | Inr (nlu_train_graph_schema, nlu_out) \<Rightarrow>
                           Inr (fill_defaults
                                  (((core_train_graph
                                       (''convert_stories_for_nlu'' \<mapsto> convert_stories_task))
                                     ++ nlu_train_graph_schema)
                                     (''create_e2e_lookup'' \<mapsto> e2e_lookup_task nlu_out)),
                                policy_names))
                    else Inr (fill_defaults core_train_graph, policy_names))))"

section \<open>The top-level merge\<close>

definition old_config_to_graph_schema ::
  "env \<Rightarrow> string \<Rightarrow> string \<Rightarrow> error + (schema \<times> string list)" where
  "old_config_to_graph_schema e project config_text =
     (case read_yaml e config_text of
        None \<Rightarrow> Inl YamlError
      | Some config_dict \<Rightarrow>
          (case nlu_config_to_train_graph_schema e project config_dict None None False of
             Inl err \<Rightarrow> Inl err
           | Inr (nlu_train_graph_schema, nlu_out) \<Rightarrow>
               (case core_config_to_train_graph_schema e project config_dict of
                  Inl err \<Rightarrow> Inl err
                | Inr (core_train_graph_schema, core_outs) \<Rightarrow>
                    Inr (core_train_graph_schema ++ nlu_train_graph_schema,
                         core_outs @ [nlu_out]))))"

section \<open>Vocabulary of the properties\<close>

text \<open>The items of a configuration key, as a compiler iterates over them.\<close>

definition entries :: "yaml \<Rightarrow> string \<Rightarrow> error + yaml list" where
  "entries cfg key = (case subscript cfg key of Inl err \<Rightarrow> Inl err | Inr v \<Rightarrow> iterate v)"

text \<open>The name a pipeline or policy entry carries, and the step kind of a pipeline entry.\<close>

definition entry_name :: "yaml \<Rightarrow> string option" where
  "entry_name component =
     (case pop component ''name'' of Inr (YStr nm, rest) \<Rightarrow> Some nm | _ \<Rightarrow> None)"

definition entry_kind :: "env \<Rightarrow> yaml \<Rightarrow> step_type option" where
  "entry_kind e component =
     (case entry_name component of
        None \<Rightarrow> None
      | Some nm \<Rightarrow> (case get_component_class e nm of None \<Rightarrow> None | Some c \<Rightarrow> meta c))"

text \<open>The task names that the \<open>needs\<close> of the tasks of a schema refer to.\<close>

definition needs_of :: "schema \<Rightarrow> string set" where
  "needs_of g = (\<Union>t \<in> ran g. ran (needs t))"

text \<open>The references of a schema that are not among its keys.\<close>

definition dangling :: "schema \<Rightarrow> string set" where
  "dangling g = needs_of g - dom g"

definition is_digit :: "char \<Rightarrow> bool" where
  "is_digit c = (c \<in> set ''0123456789'')"

text \<open>
  A registry of the seven component classes of the step-kind table under their own
  names, and a policy registry of three policies of which \<open>TEDPolicy\<close> declares
  \<open>e2e_features\<close>; the examples below run on them.
\<close>

definition registered_components :: "string \<Rightarrow> component_class option" where
  "registered_components =
     map_of (map (\<lambda>c. (class_name c, c))
       [WhitespaceTokenizer, RegexFeaturizer, LexicalSyntacticFeaturizer,
        CountVectorsFeaturizer, DIETClassifier, ResponseSelector, EntitySynonymMapper])"

definition registered_policies :: "string \<Rightarrow> policy_class option" where
  "registered_policies =
     map_of
       [(''MemoizationPolicy'',
           PolicyClass ''MemoizationPolicy'' [''self'', ''training_trackers'', ''domain'']),
        (''TEDPolicy'',
           PolicyClass ''TEDPolicy''
             [''self'', ''training_trackers'', ''domain'', ''e2e_features'']),
        (''RulePolicy'',
           PolicyClass ''RulePolicy'' [''self'', ''training_trackers'', ''domain''])]"

text \<open>
  Two pipeline entries, two policy entries and the configurations built from them; the
  YAML loader of the examples reads one text, \<open>example_text\<close>, as \<open>example_config\<close>.
\<close>

definition tokenizer_entry :: yaml where
  "tokenizer_entry = YDict [(''name'', YStr ''WhitespaceTokenizer'')]"

definition classifier_entry :: yaml where
  "classifier_entry = YDict [(''name'', YStr ''DIETClassifier''), (''epochs'', YInt 2)]"

definition memoization_entry :: yaml where
  "memoization_entry = YDict [(''name'', YStr ''MemoizationPolicy'')]"

definition ted_entry :: yaml where
  "ted_entry = YDict [(''name'', YStr ''TEDPolicy''), (''epochs'', YInt 10)]"

definition example_config :: yaml where
  "example_config =
     YDict [(''pipeline'', YList [tokenizer_entry, classifier_entry]),
            (''policies'', YList [memoization_entry, ted_entry])]"

definition example_text :: string where
  "example_text = ''pipeline: [{name: WhitespaceTokenizer}, {name: DIETClassifier, epochs: 2}], policies: [{name: MemoizationPolicy}, {name: TEDPolicy, epochs: 10}]''"

definition example_env :: env where
  "example_env =
     \<lparr>get_component_class = registered_components,
      policy_from_module_path = registered_policies,
      read_yaml = map_of [(example_text, example_config)]\<rparr>"

definition step_tasks :: "step_type \<Rightarrow> string \<Rightarrow> string set" where
  "step_tasks step u =
     (case step of
        Process \<Rightarrow> {''process_'' @ u}
      | Train \<Rightarrow> {''train_'' @ u}
      | TrainProcess \<Rightarrow> {''train_'' @ u, ''process_'' @ u})"

text \<open>The task names the entry at index i adds to the graph.\<close>

definition entry_tasks :: "env \<Rightarrow> string option \<Rightarrow> bool \<Rightarrow> nat \<Rightarrow> yaml \<Rightarrow> string set" where
  "entry_tasks e ns op i c =
     (case (entry_name c, entry_kind e c) of
        (Some nm, Some step) \<Rightarrow>
          if step = Train \<and> op then {} else step_tasks step (unique_name ns nm i)
      | _ \<Rightarrow> {})"

text \<open>Configurations for the examples.\<close>

definition classifier_only_config :: yaml where
  "classifier_only_config = YDict [(''pipeline'', YList [classifier_entry])]"

definition tokenizer_classifier_config :: yaml where
  "tokenizer_classifier_config =
     YDict [(''pipeline'', YList [tokenizer_entry, classifier_entry])]"

text \<open>
  A registry for the scenario of three entries named \<open>Tokenizer\<close>, \<open>Featurizer\<close> and
  \<open>Classifier\<close>, resolved to a process-only, a train-and-process and a train-only class.
\<close>

definition scenario_components :: "string \<Rightarrow> component_class option" where
  "scenario_components =
     map_of [(''Tokenizer'', WhitespaceTokenizer), (''Featurizer'', CountVectorsFeaturizer),
             (''Classifier'', DIETClassifier)]"

definition scenario_env :: env where
  "scenario_env =
     \<lparr>get_component_class = scenario_components,
      policy_from_module_path = registered_policies,
      read_yaml = (\<lambda>text. None)\<rparr>"

definition scenario_pipeline :: "yaml list" where
  "scenario_pipeline =
     [YDict [(''name'', YStr ''Tokenizer'')], YDict [(''name'', YStr ''Featurizer'')],
      YDict [(''name'', YStr ''Classifier'')]]"

definition scenario_config :: yaml where
  "scenario_config = YDict [(''pipeline'', YList scenario_pipeline)]"

text \<open>The task of a policy after the probe of its \<open>train\<close> parameters.\<close>

definition compiled_policy_task :: "policy_class \<Rightarrow> (string \<times> yaml) list \<Rightarrow> task" where
  "compiled_policy_task policy_class policy =
     (if ''e2e_features'' \<in> set (train_parameters policy_class)
      then (policy_task policy_class policy)
             \<lparr>needs := (needs (policy_task policy_class policy))
                (''e2e_features'' \<mapsto> ''create_e2e_lookup'')\<rparr>
      else policy_task policy_class policy)"

text \<open>Whether the policy class of an entry declares \<open>e2e_features\<close>.\<close>

definition declares_e2e :: "env \<Rightarrow> yaml \<Rightarrow> bool" where
  "declares_e2e e policy =
     (case entry_name policy of
        None \<Rightarrow> False
      | Some nm \<Rightarrow>
          (case policy_from_module_path e nm of
             None \<Rightarrow> False
           | Some c \<Rightarrow> ''e2e_features'' \<in> set (train_parameters c)))"

text \<open>The task names of the entries of a list, numbered from \<open>i\<close>.\<close>

fun indexed_names :: "nat \<Rightarrow> yaml list \<Rightarrow> string list" where
  "indexed_names i [] = []"
| "indexed_names i (p # ps) =
     (case entry_name p of None \<Rightarrow> [] | Some nm \<Rightarrow> nm @ ''_'' @ string_of_nat i)
     # indexed_names (Suc i) ps"

text \<open>The task names of the NLU compile that the Core compiler runs when a policy declares
  \<open>e2e_features\<close>.\<close>

definition sub_nlu_keys :: "env \<Rightarrow> string \<Rightarrow> yaml \<Rightarrow> string set" where
  "sub_nlu_keys e project cfg =
     (case nlu_config_to_train_graph_schema e project cfg (Some ''core'')
             (Some ''convert_stories_for_nlu'') True of
        Inl err \<Rightarrow> {}
      | Inr (ns, nout) \<Rightarrow> dom ns)"

section \<open>Decimal indices and task names\<close>

declare string_of_nat.simps [simp del]

lemma digit_char_cases:
  "d < 10 \<Longrightarrow> d = 0 \<or> d = 1 \<or> d = 2 \<or> d = 3 \<or> d = 4 \<or> d = 5 \<or> d = 6 \<or> d = 7 \<or> d = 8 \<or> d = (9::nat)"
  by arith

lemma digit_char_is_digit: "is_digit (digit_char d)"
proof -
  have "d mod 10 < 10" by simp
  then show ?thesis unfolding digit_char_def is_digit_def
    using digit_char_cases [of "d mod 10"] by auto
qed

lemma digit_char_inj: "a < 10 \<Longrightarrow> b < 10 \<Longrightarrow> digit_char a = digit_char b \<Longrightarrow> a = b"
  using digit_char_cases [of a] digit_char_cases [of b]
  by (auto simp: digit_char_def)

lemma string_of_nat_digits: "c \<in> set (string_of_nat n) \<Longrightarrow> is_digit c"
proof (induction n rule: string_of_nat.induct)
  case (1 n)
  show ?case
  proof (cases "n < 10")
    case True
    then show ?thesis using 1(2) digit_char_is_digit [of n]
      by (simp add: string_of_nat.simps [of n])
  next
    case False
    then show ?thesis using 1 digit_char_is_digit [of "n mod 10"]
      by (auto simp add: string_of_nat.simps [of n])
  qed
qed

lemma string_of_nat_nonempty: "string_of_nat n \<noteq> []"
  by (simp add: string_of_nat.simps [of n])

lemma string_of_nat_inj: "string_of_nat n = string_of_nat m \<Longrightarrow> n = m"
proof (induction n arbitrary: m rule: string_of_nat.induct)
  case (1 n)
  show ?case
  proof (cases "n < 10")
    case n: True
    show ?thesis
    proof (cases "m < 10")
      case True
      with n 1(2) show ?thesis
        by (simp add: string_of_nat.simps [of n] string_of_nat.simps [of m] digit_char_inj)
    next
      case False
      with n 1(2) string_of_nat_nonempty [of "m div 10"] show ?thesis
        by (simp add: string_of_nat.simps [of n] string_of_nat.simps [of m] Cons_eq_append_conv)
    qed
  next
    case n: False
    show ?thesis
    proof (cases "m < 10")
      case True
      with n 1(2) string_of_nat_nonempty [of "n div 10"] show ?thesis
        by (simp add: string_of_nat.simps [of n] string_of_nat.simps [of m] append_eq_Cons_conv)
    next
      case False
      with n 1(2) have a: "string_of_nat (n div 10) = string_of_nat (m div 10)"
        and b: "digit_char (n mod 10) = digit_char (m mod 10)"
        by (simp_all add: string_of_nat.simps [of n] string_of_nat.simps [of m])
      from 1(1) [OF n a] have "n div 10 = m div 10" .
      moreover from b have "n mod 10 = m mod 10" by (intro digit_char_inj) simp_all
      ultimately show ?thesis by (metis div_mult_mod_eq)
    qed
  qed
qed


lemma split_at_underscore:
  assumes "a @ CHR ''_'' # s = b @ CHR ''_'' # t" "CHR ''_'' \<notin> set s" "CHR ''_'' \<notin> set t"
  shows "a = b \<and> s = t"
  using assms by (auto simp: append_eq_append_conv2 Cons_eq_append_conv append_eq_Cons_conv)

lemma underscore_not_digit: "\<not> is_digit (CHR ''_'')"
  by (simp add: is_digit_def)

lemma string_of_nat_no_underscore: "CHR ''_'' \<notin> set (string_of_nat n)"
  using string_of_nat_digits underscore_not_digit by blast

lemma indexed_name_inj:
  "a @ ''_'' @ string_of_nat i = b @ ''_'' @ string_of_nat j \<Longrightarrow> a = b \<and> i = j"
  using split_at_underscore [of a "string_of_nat i" b "string_of_nat j"]
    string_of_nat_no_underscore string_of_nat_inj by auto

section \<open>Step builders: the output pointer and persistence\<close>

lemma ran_two: "a \<noteq> b \<Longrightarrow> ran (Map.empty(a \<mapsto> x, b \<mapsto> y)) = {x, y}"
  by (auto simp: ran_def)

lemma ran_fill_defaults: "ran (fill_defaults g) = fill_task ` ran g"
  by (auto simp: ran_def fill_defaults_def image_iff)

text \<open>
  C10: whatever its arguments, the train-and-process builder leaves \<open>persist\<close> unset on
  both of its tasks, so the defaulting pass makes both persisted; the process-only
  builder sets \<open>persist\<close> to false on its task, and the defaulting pass keeps it. So the
  output task of a train-and-process component is persisted and that of a process-only
  component is not.
\<close>

theorem builders_persist:
  "persist ` ran (fst (train_and_process_component c inp cfg name tf pf ip)) = {None}
   \<and> persist ` ran (fill_defaults (fst (train_and_process_component c inp cfg name tf pf ip)))
       = {Some True}
   \<and> persist ` ran (fst (process_component c inp cfg name pf ip)) = {Some False}
   \<and> persist ` ran (fill_defaults (fst (process_component c inp cfg name pf ip)))
       = {Some False}
   \<and> map_option persist
         (fill_defaults (fst (train_and_process_component c inp cfg name tf pf ip))
            (snd (train_and_process_component c inp cfg name tf pf ip))) = Some (Some True)
   \<and> map_option persist
         (fill_defaults (fst (process_component c inp cfg name pf ip))
            (snd (process_component c inp cfg name pf ip))) = Some (Some False)"
proof -
  have "persist ` ran (fst (train_and_process_component c inp cfg name tf pf ip)) = {None}"
    by (simp add: train_and_process_component_def Let_def ran_two)
  moreover have "persist ` ran (fill_defaults
      (fst (train_and_process_component c inp cfg name tf pf ip))) = {Some True}"
    by (simp add: train_and_process_component_def Let_def ran_two ran_fill_defaults
        fill_task_def)
  moreover have "persist ` ran (fst (process_component c inp cfg name pf ip)) = {Some False}"
    by (simp add: process_component_def Let_def)
  moreover have "persist ` ran (fill_defaults (fst (process_component c inp cfg name pf ip)))
      = {Some False}"
    by (simp add: process_component_def Let_def ran_fill_defaults fill_task_def)
  moreover have "map_option persist
      (fill_defaults (fst (train_and_process_component c inp cfg name tf pf ip))
         (snd (train_and_process_component c inp cfg name tf pf ip))) = Some (Some True)"
    by (simp add: train_and_process_component_def Let_def fill_defaults_def fill_task_def)
  moreover have "map_option persist
      (fill_defaults (fst (process_component c inp cfg name pf ip))
         (snd (process_component c inp cfg name pf ip))) = Some (Some False)"
    by (simp add: process_component_def Let_def fill_defaults_def fill_task_def)
  ultimately show ?thesis by blast
qed

lemma unique_name_nonempty: "unique_name ns nm i \<noteq> []"
  by (simp add: unique_name_def Let_def split: option.splits)

lemma unique_name_inj:
  "unique_name ns n i = unique_name ns m j \<Longrightarrow> n = m \<and> i = j"
proof -
  assume h: "unique_name ns n i = unique_name ns m j"
  have "n @ ''_'' @ string_of_nat i = m @ ''_'' @ string_of_nat j"
    using h by (auto simp: unique_name_def Let_def split: option.splits if_splits)
  then show ?thesis by (rule indexed_name_inj)
qed

lemma name_or_class_unique [simp]:
  "name_or_class (Some (unique_name ns nm i)) c = unique_name ns nm i"
  by (simp add: name_or_class_def unique_name_nonempty)

lemma builder_dom:
  "dom (fst (builder step c inp cfg name)) = step_tasks step (name_or_class name c)"
  by (cases step)
     (auto simp: builder_def step_tasks_def process_component_def train_component_def
        train_and_process_component_def Let_def)

lemma needs_of_empty [simp]: "needs_of Map.empty = {}"
  by (simp add: needs_of_def)

lemma needs_of_upd_subset: "needs_of (g(k \<mapsto> t)) \<subseteq> needs_of g \<union> ran (needs t)"
  by (auto simp: needs_of_def ran_def split: if_splits)

lemma ran_add_subset: "ran (g ++ f) \<subseteq> ran g \<union> ran f"
  by (auto simp: ran_def map_add_def split: option.splits)

lemma needs_of_add_subset: "needs_of (g ++ f) \<subseteq> needs_of g \<union> needs_of f"
  using ran_add_subset [of g f] unfolding needs_of_def by blast

lemma needs_of_fill_defaults [simp]: "needs_of (fill_defaults g) = needs_of g"
  by (auto simp: needs_of_def ran_fill_defaults fill_task_def split: option.splits)

lemma dom_fill_defaults [simp]: "dom (fill_defaults g) = dom g"
  by (auto simp: fill_defaults_def dom_def)

lemma builder_needs:
  "needs_of (fst (builder step c inp cfg name))
     \<subseteq> insert inp (step_tasks step (name_or_class name c))"
  by (cases step)
     (auto simp: builder_def step_tasks_def process_component_def train_component_def
        train_and_process_component_def Let_def needs_of_def ran_def split: if_splits)

lemma builder_out:
  "snd (builder step c inp cfg name)
     \<in> insert inp (step_tasks step (name_or_class name c))"
  by (cases step)
     (auto simp: builder_def step_tasks_def process_component_def train_component_def
        train_and_process_component_def Let_def)

text \<open>What one pass of the loop does when it succeeds.\<close>

lemma nlu_step_Inr:
  assumes "nlu_step e ns op i c st = Inr st'"
  shows "\<exists>nm rest cls step.
    pop c ''name'' = Inr (YStr nm, rest) \<and>
    get_component_class e nm = Some cls \<and>
    meta cls = Some step \<and>
    st' = (if step = Train \<and> op then st
           else (fst st ++ fst (builder step cls (snd st)
                   (Some [(''component_config'', YDict rest)]) (Some (unique_name ns nm i))),
                 snd (builder step cls (snd st)
                   (Some [(''component_config'', YDict rest)]) (Some (unique_name ns nm i)))))"
  using assms
  by (auto simp: nlu_step_def Let_def case_prod_unfold
      split: sum.splits yaml.splits option.splits if_splits)

lemma entry_kind_of_pop:
  "pop c ''name'' = Inr (YStr nm, rest) \<Longrightarrow> get_component_class e nm = Some cls \<Longrightarrow>
   entry_name c = Some nm \<and> entry_kind e c = meta cls"
  by (simp add: entry_name_def entry_kind_def)

lemma nlu_step_dom:
  assumes "nlu_step e ns op i c st = Inr st'"
  shows "dom (fst st') = dom (fst st) \<union> entry_tasks e ns op i c"
proof -
  from nlu_step_Inr [OF assms] obtain nm rest cls step where
    h: "pop c ''name'' = Inr (YStr nm, rest)" "get_component_class e nm = Some cls"
       "meta cls = Some step"
       "st' = (if step = Train \<and> op then st
           else (fst st ++ fst (builder step cls (snd st)
                   (Some [(''component_config'', YDict rest)]) (Some (unique_name ns nm i))),
                 snd (builder step cls (snd st)
                   (Some [(''component_config'', YDict rest)]) (Some (unique_name ns nm i)))))"
    by blast
  from entry_kind_of_pop [OF h(1,2)] h(3)
  have k: "entry_name c = Some nm" "entry_kind e c = Some step" by simp_all
  show ?thesis using h(4) k
    by (auto simp: entry_tasks_def builder_dom)
qed

lemma nlu_step_refs:
  assumes "nlu_step e ns op i c st = Inr st'"
  shows "needs_of (fst st') \<subseteq> needs_of (fst st) \<union> insert (snd st) (dom (fst st'))"
    and "snd st' \<in> insert (snd st) (dom (fst st'))"
proof -
  from nlu_step_Inr [OF assms] obtain nm rest cls step where
    h: "pop c ''name'' = Inr (YStr nm, rest)" "get_component_class e nm = Some cls"
       "meta cls = Some step"
       "st' = (if step = Train \<and> op then st
           else (fst st ++ fst (builder step cls (snd st)
                   (Some [(''component_config'', YDict rest)]) (Some (unique_name ns nm i))),
                 snd (builder step cls (snd st)
                   (Some [(''component_config'', YDict rest)]) (Some (unique_name ns nm i)))))"
    by blast
  let ?b = "builder step cls (snd st)
                   (Some [(''component_config'', YDict rest)]) (Some (unique_name ns nm i))"
  have n: "needs_of (fst ?b) \<subseteq> insert (snd st) (dom (fst ?b))"
    using builder_needs [of step cls "snd st" _ "Some (unique_name ns nm i)"]
    by (simp add: builder_dom)
  have o: "snd ?b \<in> insert (snd st) (dom (fst ?b))"
    using builder_out [of step cls "snd st" _ "Some (unique_name ns nm i)"]
    by (simp add: builder_dom)
  show "needs_of (fst st') \<subseteq> needs_of (fst st) \<union> insert (snd st) (dom (fst st'))"
    using h(4) n needs_of_add_subset [of "fst st" "fst ?b"] by (auto split: if_splits)
  show "snd st' \<in> insert (snd st) (dom (fst st'))"
    using h(4) o by (auto split: if_splits)
qed

lemma nlu_loop_dom:
  "nlu_loop e ns op i cs st = Inr st' \<Longrightarrow>
   dom (fst st') = dom (fst st) \<union> (\<Union>k<length cs. entry_tasks e ns op (i + k) (cs ! k))"
proof (induction cs arbitrary: i st)
  case Nil
  then show ?case by simp
next
  case (Cons c cs)
  from Cons.prems obtain st1 where
    s: "nlu_step e ns op i c st = Inr st1" and l: "nlu_loop e ns op (Suc i) cs st1 = Inr st'"
    by (auto split: sum.splits)
  have "(\<Union>k<length (c # cs). entry_tasks e ns op (i + k) ((c # cs) ! k))
      = entry_tasks e ns op i c \<union> (\<Union>k<length cs. entry_tasks e ns op (Suc i + k) (cs ! k))"
    by (auto simp: less_Suc_eq_0_disj)
  then show ?case using Cons.IH [OF l] nlu_step_dom [OF s] by auto
qed

lemma nlu_loop_dom_mono:
  "nlu_loop e ns op i cs st = Inr st' \<Longrightarrow> dom (fst st) \<subseteq> dom (fst st')"
  by (simp add: nlu_loop_dom)

text \<open>
  The loop keeps every reference and the output pointer inside the graph built so far,
  up to a set X of names supplied from outside.
\<close>

lemma refs_step_set:
  "N1 \<subseteq> N \<union> insert p D1 \<Longrightarrow> N \<subseteq> D \<union> X \<Longrightarrow> p \<in> D \<union> X \<Longrightarrow> D \<subseteq> D1 \<Longrightarrow>
   N1 \<subseteq> D1 \<union> X"
  by blast

lemma out_step_set:
  "q \<in> insert p D1 \<Longrightarrow> p \<in> D \<union> X \<Longrightarrow> D \<subseteq> D1 \<Longrightarrow> q \<in> D1 \<union> X"
  by blast

lemma nlu_loop_refs:
  "nlu_loop e ns op i cs st = Inr st' \<Longrightarrow>
   needs_of (fst st) \<subseteq> dom (fst st) \<union> X \<Longrightarrow> snd st \<in> dom (fst st) \<union> X \<Longrightarrow>
   needs_of (fst st') \<subseteq> dom (fst st') \<union> X \<and> snd st' \<in> dom (fst st') \<union> X"
proof (induction cs arbitrary: i st)
  case Nil
  then show ?case by simp
next
  case (Cons c cs)
  from Cons.prems(1) obtain st1 where
    s: "nlu_step e ns op i c st = Inr st1" and l: "nlu_loop e ns op (Suc i) cs st1 = Inr st'"
    by (auto split: sum.splits)
  have d: "dom (fst st) \<subseteq> dom (fst st1)" using nlu_step_dom [OF s] by simp
  have a: "needs_of (fst st1) \<subseteq> dom (fst st1) \<union> X"
    by (rule refs_step_set [OF nlu_step_refs(1) [OF s] Cons.prems(2,3) d])
  have b: "snd st1 \<in> dom (fst st1) \<union> X"
    by (rule out_step_set [OF nlu_step_refs(2) [OF s] Cons.prems(3) d])
  show ?case by (rule Cons.IH [OF l a b])
qed

lemma nlu_Inr:
  assumes "nlu_config_to_train_graph_schema e project cfg ns input_task op = Inr (s, out)"
  shows "\<exists>pipeline g. entries cfg ''pipeline'' = Inr pipeline \<and>
     nlu_loop e ns op 0 pipeline (nlu_start project input_task) = Inr (g, out) \<and>
     s = fill_defaults g"
  using assms
  by (auto simp: nlu_config_to_train_graph_schema_def entries_def split: sum.splits)

lemma nlu_start_None:
  "nlu_start project None = ([''load_data'' \<mapsto> load_data_task project], ''load_data'')"
  by (simp add: nlu_start_def)

lemma needs_of_load_data [simp]: "needs_of [''load_data'' \<mapsto> load_data_task project] = {}"
  by (simp add: needs_of_def load_data_task_def)

lemma nlu_start_refs:
  "needs_of (fst (nlu_start project input_task)) = {}"
  "snd (nlu_start project input_task) \<in> dom (fst (nlu_start project input_task))
     \<union> (case input_task of None \<Rightarrow> {} | Some t \<Rightarrow> {t})"
  by (auto simp: nlu_start_def split: option.splits)

lemma nlu_refs:
  assumes "nlu_config_to_train_graph_schema e project cfg ns input_task op = Inr (s, out)"
  shows "dangling s \<subseteq> (case input_task of None \<Rightarrow> {} | Some t \<Rightarrow> {t})"
    and "out \<in> dom s \<union> (case input_task of None \<Rightarrow> {} | Some t \<Rightarrow> {t})"
proof -
  from nlu_Inr [OF assms] obtain pipeline g where
    l: "nlu_loop e ns op 0 pipeline (nlu_start project input_task) = Inr (g, out)"
    and s: "s = fill_defaults g" by blast
  let ?X = "case input_task of None \<Rightarrow> {} | Some t \<Rightarrow> {t}"
  have "needs_of (fst (nlu_start project input_task))
      \<subseteq> dom (fst (nlu_start project input_task)) \<union> ?X"
    by (simp add: nlu_start_refs(1))
  from nlu_loop_refs [OF l this nlu_start_refs(2)]
  have "needs_of g \<subseteq> dom g \<union> ?X" "out \<in> dom g \<union> ?X" by simp_all
  then show "dangling s \<subseteq> ?X" "out \<in> dom s \<union> ?X"
    using s by (auto simp: dangling_def)
qed

text \<open>
  C2: whatever its arguments, the train-only builder returns the upstream task name it
  was given as its output task name; so when the loop body of the NLU compiler handles
  an entry whose step kind is train and succeeds, the current output task after the
  pass is the one before it.
\<close>

theorem train_only_pointer:
  "snd (train_component component_class input_task_name cfg name train_function
          input_data_param_name) = input_task_name
   \<and> (entry_kind e component = Some Train \<longrightarrow>
        nlu_step e ns op i component (g, out) = Inr (g', out') \<longrightarrow> out' = out)"
proof -
  have "snd (train_component component_class input_task_name cfg name train_function
          input_data_param_name) = input_task_name"
    by (simp add: train_component_def Let_def)
  moreover have "out' = out"
    if k: "entry_kind e component = Some Train"
      and s: "nlu_step e ns op i component (g, out) = Inr (g', out')"
  proof -
    from nlu_step_Inr [OF s] obtain nm rest cls step where
      h: "pop component ''name'' = Inr (YStr nm, rest)" "get_component_class e nm = Some cls"
        "meta cls = Some step"
        "(g', out') = (if step = Train \<and> op then (g, out)
           else (fst (g, out) ++ fst (builder step cls (snd (g, out))
                   (Some [(''component_config'', YDict rest)]) (Some (unique_name ns nm i))),
                 snd (builder step cls (snd (g, out))
                   (Some [(''component_config'', YDict rest)]) (Some (unique_name ns nm i)))))"
      by blast
    from entry_kind_of_pop [OF h(1,2)] h(3) k have "step = Train" by simp
    with h(4) show ?thesis
      by (auto simp: builder_def train_component_def Let_def split: if_splits)
  qed
  ultimately show ?thesis by blast
qed

lemma registered_components_simps [simp]:
  "registered_components ''WhitespaceTokenizer'' = Some WhitespaceTokenizer"
  "registered_components ''RegexFeaturizer'' = Some RegexFeaturizer"
  "registered_components ''LexicalSyntacticFeaturizer'' = Some LexicalSyntacticFeaturizer"
  "registered_components ''CountVectorsFeaturizer'' = Some CountVectorsFeaturizer"
  "registered_components ''DIETClassifier'' = Some DIETClassifier"
  "registered_components ''ResponseSelector'' = Some ResponseSelector"
  "registered_components ''EntitySynonymMapper'' = Some EntitySynonymMapper"
  by (simp_all add: registered_components_def)

lemma string_of_nat_small: "n < 10 \<Longrightarrow> string_of_nat n = [digit_char n]"
  by (simp add: string_of_nat.simps [of n])

lemma string_of_nat_0 [simp]: "string_of_nat 0 = ''0''"
  and string_of_nat_1 [simp]: "string_of_nat (Suc 0) = ''1''"
  and string_of_nat_2 [simp]: "string_of_nat (Suc (Suc 0)) = ''2''"
  by (simp_all add: string_of_nat_small digit_char_def)

lemma nlu_step_eval:
  assumes "pop c ''name'' = Inr (YStr nm, rest)" "get_component_class e nm = Some cls"
    "meta cls = Some step"
  shows "nlu_step e ns op i c st =
     Inr (if step = Train \<and> op then st
          else (fst st ++ fst (builder step cls (snd st)
                  (Some [(''component_config'', YDict rest)]) (Some (unique_name ns nm i))),
                snd (builder step cls (snd st)
                  (Some [(''component_config'', YDict rest)]) (Some (unique_name ns nm i)))))"
  using assms by (simp add: nlu_step_def Let_def case_prod_unfold)

theorem train_only_pointer_witness:
  "entry_kind example_env classifier_entry = Some Train
   \<and> (\<exists>g'. nlu_step example_env None False 1 classifier_entry
              ([''load_data'' \<mapsto> load_data_task ''moodbot''], ''load_data'')
            = Inr (g', ''load_data''))"
proof -
  have k: "entry_kind example_env classifier_entry = Some Train"
    by (simp add: entry_kind_def entry_name_def classifier_entry_def example_env_def)
  have "pop classifier_entry ''name'' = Inr (YStr ''DIETClassifier'', [(''epochs'', YInt 2)])"
    "get_component_class example_env ''DIETClassifier'' = Some DIETClassifier"
    "meta DIETClassifier = Some Train"
    by (simp_all add: classifier_entry_def example_env_def)
  from nlu_step_eval [OF this]
  obtain g' out' where s: "nlu_step example_env None False 1 classifier_entry
        ([''load_data'' \<mapsto> load_data_task ''moodbot''], ''load_data'') = Inr (g', out')"
    by simp
  from train_only_pointer [of DIETClassifier "''x''" None None "''train''" "''training_data''"
      example_env classifier_entry None False 1] k s
  have "out' = ''load_data''" by blast
  with k s show ?thesis by blast
qed

lemma builder_snd [simp]:
  "snd (builder Process c inp cfg name) = ''process_'' @ name_or_class name c"
  "snd (builder Train c inp cfg name) = inp"
  "snd (builder TrainProcess c inp cfg name) = ''process_'' @ name_or_class name c"
  by (simp_all add: builder_def process_component_def train_component_def
      train_and_process_component_def Let_def)

lemma name_or_class_Cons [simp]: "name_or_class (Some (x # xs)) c = x # xs"
  by (simp add: name_or_class_def)

lemma pop_examples [simp]:
  "pop tokenizer_entry ''name'' = Inr (YStr ''WhitespaceTokenizer'', [])"
  "pop classifier_entry ''name'' = Inr (YStr ''DIETClassifier'', [(''epochs'', YInt 2)])"
  by (simp_all add: tokenizer_entry_def classifier_entry_def)

lemma example_env_simps [simp]:
  "get_component_class example_env = registered_components"
  "policy_from_module_path example_env = registered_policies"
  by (simp_all add: example_env_def)

lemma fill_defaults_empty [simp]: "fill_defaults Map.empty = Map.empty"
  by (simp add: fill_defaults_def)

text \<open>
  C6, as amended: the output task name the NLU compiler returns is a key of the schema
  it returns, or it is the externally supplied input task itself; so without an external
  input task it is always a key of the schema.
\<close>

theorem output_pointer_membership:
  "nlu_config_to_train_graph_schema e project cfg ns input_task op = Inr (s, out) \<Longrightarrow>
   out \<in> dom s \<or> input_task = Some out"
  using nlu_refs(2) [of e project cfg ns input_task op s out]
  by (auto split: option.splits)

lemma nlu_classifier_only:
  "nlu_config_to_train_graph_schema example_env ''moodbot'' classifier_only_config
     (Some ''core'') (Some ''convert_stories_for_nlu'') True
   = Inr (Map.empty, ''convert_stories_for_nlu'')"
  by (simp add: nlu_config_to_train_graph_schema_def classifier_only_config_def
      nlu_start_def nlu_step_eval [where step = Train and cls = DIETClassifier])

theorem output_pointer_membership_counterexample:
  "\<not> isl (nlu_config_to_train_graph_schema example_env ''moodbot'' classifier_only_config
            (Some ''core'') (Some ''convert_stories_for_nlu'') True)
   \<and> snd (projr (nlu_config_to_train_graph_schema example_env ''moodbot''
            classifier_only_config (Some ''core'') (Some ''convert_stories_for_nlu'') True))
       \<notin> dom (fst (projr (nlu_config_to_train_graph_schema example_env ''moodbot''
            classifier_only_config (Some ''core'') (Some ''convert_stories_for_nlu'') True)))"
  by (simp add: nlu_classifier_only)

lemma nlu_tokenizer_classifier:
  "\<exists>s. nlu_config_to_train_graph_schema example_env ''moodbot'' tokenizer_classifier_config
     None None False = Inr (s, ''process_WhitespaceTokenizer_0'')"
  by (simp add: nlu_config_to_train_graph_schema_def tokenizer_classifier_config_def
      nlu_start_def nlu_step_eval [where step = Train and cls = DIETClassifier]
      nlu_step_eval [where step = Process and cls = WhitespaceTokenizer] unique_name_def)

theorem output_pointer_membership_witness:
  "\<exists>s. nlu_config_to_train_graph_schema example_env ''moodbot'' tokenizer_classifier_config
          None None False = Inr (s, ''process_WhitespaceTokenizer_0'')
       \<and> ''process_WhitespaceTokenizer_0'' \<in> dom s"
proof -
  from nlu_tokenizer_classifier obtain s where
    s: "nlu_config_to_train_graph_schema example_env ''moodbot'' tokenizer_classifier_config
          None None False = Inr (s, ''process_WhitespaceTokenizer_0'')" by blast
  from output_pointer_membership [OF s] have "''process_WhitespaceTokenizer_0'' \<in> dom s"
    by simp
  with s show ?thesis by blast
qed

lemma entry_tasks_form:
  assumes "x \<in> entry_tasks e ns op j c"
  shows "\<exists>nm step. entry_name c = Some nm \<and> entry_kind e c = Some step \<and>
           \<not> (step = Train \<and> op) \<and> x \<in> step_tasks step (unique_name ns nm j)"
  using assms by (auto simp: entry_tasks_def split: option.splits if_splits)

lemma step_tasks_form:
  "x \<in> step_tasks step u \<Longrightarrow>
   (x = ''train_'' @ u \<and> step \<noteq> Process) \<or> (x = ''process_'' @ u \<and> step \<noteq> Train)"
  by (cases step) (auto simp: step_tasks_def)

lemma train_name_not_in_entry_tasks:
  assumes "entry_name c = Some nm" "entry_kind e c = Some Train"
  shows "''train_'' @ unique_name ns nm i \<notin> entry_tasks e ns True j c'
         \<or> (j = i \<and> entry_name c' = Some nm)"
proof (cases "''train_'' @ unique_name ns nm i \<in> entry_tasks e ns True j c'")
  case False
  then show ?thesis by simp
next
  case True
  from entry_tasks_form [OF True] obtain nm' step where
    h: "entry_name c' = Some nm'" "entry_kind e c' = Some step"
       "''train_'' @ unique_name ns nm i \<in> step_tasks step (unique_name ns nm' j)"
    by blast
  from step_tasks_form [OF h(3)] have "unique_name ns nm i = unique_name ns nm' j" by auto
  from unique_name_inj [OF this] h(1) show ?thesis by simp
qed

lemma nlu_start_dom: "dom (fst (nlu_start project input_task)) \<subseteq> {''load_data''}"
  by (auto simp: nlu_start_def split: option.splits if_splits)

lemma nlu_dom:
  assumes "nlu_config_to_train_graph_schema e project cfg ns input_task op = Inr (s, out)"
    and "entries cfg ''pipeline'' = Inr pipeline"
  shows "dom s = dom (fst (nlu_start project input_task))
           \<union> (\<Union>k<length pipeline. entry_tasks e ns op k (pipeline ! k))"
proof -
  from nlu_Inr [OF assms(1)] assms(2) obtain g where
    l: "nlu_loop e ns op 0 pipeline (nlu_start project input_task) = Inr (g, out)"
    and s: "s = fill_defaults g" by auto
  from nlu_loop_dom [OF l] s show ?thesis by simp
qed

text \<open>
  C4, as amended: when the NLU compiler runs with \<open>only_process\<close> set and returns, no
  task name that the train-only builder would have produced for an entry of step kind
  train is a key of the returned schema; and such a name occurs among the \<open>needs\<close>
  values of the schema only if it is the externally supplied input task name itself.
\<close>

theorem only_process_filtering:
  assumes "nlu_config_to_train_graph_schema e project cfg ns input_task True = Inr (s, out)"
    and "entries cfg ''pipeline'' = Inr pipeline"
    and "i < length pipeline"
    and "entry_name (pipeline ! i) = Some nm"
    and "entry_kind e (pipeline ! i) = Some Train"
    and "k \<in> dom (fst (builder Train cls inp c (Some (unique_name ns nm i))))"
  shows "k \<notin> dom s \<and> (k \<in> needs_of s \<longrightarrow> input_task = Some k)"
proof -
  have k: "k = ''train_'' @ unique_name ns nm i"
    using assms(6) by (simp add: builder_dom step_tasks_def)
  have "k \<notin> entry_tasks e ns True j (pipeline ! j)" if "j < length pipeline" for j
  proof
    assume a: "k \<in> entry_tasks e ns True j (pipeline ! j)"
    with train_name_not_in_entry_tasks [OF assms(4,5), of ns i j "pipeline ! j"] k
    have "j = i" by blast
    with a assms(4,5) show False by (simp add: entry_tasks_def)
  qed
  moreover have "k \<notin> dom (fst (nlu_start project input_task))"
    using nlu_start_dom [of project input_task] k by auto
  ultimately have d: "k \<notin> dom s"
    unfolding nlu_dom [OF assms(1,2)] by blast
  have "dangling s \<subseteq> (case input_task of None \<Rightarrow> {} | Some t \<Rightarrow> {t})"
    by (rule nlu_refs(1) [OF assms(1)])
  with d have "k \<in> needs_of s \<longrightarrow> input_task = Some k"
    by (auto simp: dangling_def split: option.splits)
  with d show ?thesis by blast
qed

lemma needs_of_single [simp]: "needs_of [k \<mapsto> t] = ran (needs t)"
  by (simp add: needs_of_def)

lemma builder_Process_fst:
  "fst (builder Process c inp cfg name) =
     [''process_'' @ name_or_class name c \<mapsto>
        \<lparr>uses = Component c, fn = ''process_training_data'', config = config_or_empty cfg,
         needs = [''training_data'' \<mapsto> inp], persist = Some False\<rparr>]"
  by (simp add: builder_def process_component_def Let_def)

lemma entries_examples [simp]:
  "entries tokenizer_classifier_config ''pipeline'' = Inr [tokenizer_entry, classifier_entry]"
  "entries classifier_only_config ''pipeline'' = Inr [classifier_entry]"
  by (simp_all add: entries_def tokenizer_classifier_config_def classifier_only_config_def)

lemma entry_examples [simp]:
  "entry_name classifier_entry = Some ''DIETClassifier''"
  "entry_kind example_env classifier_entry = Some Train"
  "entry_name tokenizer_entry = Some ''WhitespaceTokenizer''"
  "entry_kind example_env tokenizer_entry = Some Process"
  by (simp_all add: entry_name_def entry_kind_def)

lemma nlu_eval:
  "nlu_config_to_train_graph_schema e project cfg ns input_task op =
     (case entries cfg ''pipeline'' of
        Inl err \<Rightarrow> Inl err
      | Inr pipeline \<Rightarrow>
          (case nlu_loop e ns op 0 pipeline (nlu_start project input_task) of
             Inl err \<Rightarrow> Inl err
           | Inr (g, out) \<Rightarrow> Inr (fill_defaults g, out)))"
  by (simp add: nlu_config_to_train_graph_schema_def entries_def split: sum.splits)

lemma nlu_named_input:
  "nlu_config_to_train_graph_schema example_env ''moodbot'' tokenizer_classifier_config
     None (Some ''train_DIETClassifier_1'') True
   = Inr (fill_defaults (fst (builder Process WhitespaceTokenizer ''train_DIETClassifier_1''
            (Some [(''component_config'', YDict [])]) (Some ''WhitespaceTokenizer_0''))),
          ''process_WhitespaceTokenizer_0'')"
  by (simp add: nlu_eval nlu_start_def unique_name_def
      nlu_step_eval [where step = Train and cls = DIETClassifier]
      nlu_step_eval [where step = Process and cls = WhitespaceTokenizer])

theorem only_process_filtering_counterexample:
  "\<not> isl (nlu_config_to_train_graph_schema example_env ''moodbot''
            tokenizer_classifier_config None (Some ''train_DIETClassifier_1'') True)
   \<and> entry_kind example_env (classifier_entry) = Some Train
   \<and> ''train_DIETClassifier_1''
       \<in> dom (fst (builder Train DIETClassifier ''process_WhitespaceTokenizer_0''
                 (Some [(''component_config'', YDict [(''epochs'', YInt 2)])])
                 (Some (unique_name None ''DIETClassifier'' 1))))
   \<and> ''train_DIETClassifier_1''
       \<in> needs_of (fst (projr (nlu_config_to_train_graph_schema example_env ''moodbot''
            tokenizer_classifier_config None (Some ''train_DIETClassifier_1'') True)))"
  by (simp add: nlu_named_input builder_Process_fst builder_dom step_tasks_def unique_name_def)

lemma nlu_core_call:
  "\<exists>s. nlu_config_to_train_graph_schema example_env ''moodbot'' tokenizer_classifier_config
     (Some ''core'') (Some ''convert_stories_for_nlu'') True
   = Inr (s, ''process_core_WhitespaceTokenizer_0'')"
  by (simp add: nlu_eval nlu_start_def unique_name_def
      nlu_step_eval [where step = Train and cls = DIETClassifier]
      nlu_step_eval [where step = Process and cls = WhitespaceTokenizer])

theorem only_process_filtering_witness:
  "\<exists>s. nlu_config_to_train_graph_schema example_env ''moodbot'' tokenizer_classifier_config
          (Some ''core'') (Some ''convert_stories_for_nlu'') True
        = Inr (s, ''process_core_WhitespaceTokenizer_0'')
      \<and> entries tokenizer_classifier_config ''pipeline'' = Inr [tokenizer_entry, classifier_entry]
      \<and> entry_name ([tokenizer_entry, classifier_entry] ! 1) = Some ''DIETClassifier''
      \<and> entry_kind example_env ([tokenizer_entry, classifier_entry] ! 1) = Some Train
      \<and> ''train_core_DIETClassifier_1''
          \<in> dom (fst (builder Train DIETClassifier ''process_core_WhitespaceTokenizer_0''
                 (Some [(''component_config'', YDict [(''epochs'', YInt 2)])])
                 (Some (unique_name (Some ''core'') ''DIETClassifier'' 1))))
      \<and> ''train_core_DIETClassifier_1'' \<notin> dom s
      \<and> ''train_core_DIETClassifier_1'' \<notin> needs_of s"
proof -
  from nlu_core_call obtain s where
    s: "nlu_config_to_train_graph_schema example_env ''moodbot'' tokenizer_classifier_config
          (Some ''core'') (Some ''convert_stories_for_nlu'') True
        = Inr (s, ''process_core_WhitespaceTokenizer_0'')" by blast
  have p: "entries tokenizer_classifier_config ''pipeline''
      = Inr [tokenizer_entry, classifier_entry]" by simp
  have i: "1 < length [tokenizer_entry, classifier_entry]" by simp
  have n: "entry_name ([tokenizer_entry, classifier_entry] ! 1) = Some ''DIETClassifier''"
    by simp
  have t: "entry_kind example_env ([tokenizer_entry, classifier_entry] ! 1) = Some Train"
    by simp
  have k: "''train_core_DIETClassifier_1''
          \<in> dom (fst (builder Train DIETClassifier ''process_core_WhitespaceTokenizer_0''
                 (Some [(''component_config'', YDict [(''epochs'', YInt 2)])])
                 (Some (unique_name (Some ''core'') ''DIETClassifier'' 1))))"
    by (simp add: builder_dom step_tasks_def unique_name_def)
  from only_process_filtering [OF s p i n t k]
  have "''train_core_DIETClassifier_1'' \<notin> dom s \<and> ''train_core_DIETClassifier_1'' \<notin> needs_of s"
    by auto
  with s p n t k show ?thesis by blast
qed

lemma entry_kind_pop:
  assumes "entry_name c = Some nm" "entry_kind e c = Some step"
  shows "\<exists>rest cls. pop c ''name'' = Inr (YStr nm, rest) \<and>
           get_component_class e nm = Some cls \<and> meta cls = Some step"
  using assms
  by (auto simp: entry_name_def entry_kind_def split: sum.splits yaml.splits option.splits)

lemma builder_Train_fst:
  "fst (builder Train c inp cfg name) =
     [''train_'' @ name_or_class name c \<mapsto>
        \<lparr>uses = Component c, fn = ''train'', config = config_or_empty cfg,
         needs = [''training_data'' \<mapsto> inp], persist = None\<rparr>]"
  by (simp add: builder_def train_component_def Let_def)

lemma fill_defaults_apply: "fill_defaults g k = map_option fill_task (g k)"
  by (simp add: fill_defaults_def)

lemma needs_fill_task [simp]: "needs (fill_task t) = needs t"
  by (simp add: fill_task_def split: option.splits)

text \<open>
  C3, as amended: compiling a pipeline of three entries named Tokenizer (process),
  Featurizer (train and process) and Classifier (train only) with no external input task
  returns; the schema has exactly the tasks \<open>load_data\<close>, \<open>process_Tokenizer_0\<close>,
  \<open>train_Featurizer_1\<close>, \<open>process_Featurizer_1\<close> and \<open>train_Classifier_2\<close>; the task
  \<open>train_Classifier_2\<close> needs \<open>training_data\<close> from \<open>process_Featurizer_1\<close>; and the
  final output task name is \<open>process_Featurizer_1\<close>, since the train-only last step does
  not move the output.
\<close>

theorem scenario:
  assumes "entries cfg ''pipeline'' = Inr [c0, c1, c2]"
    and "entry_name c0 = Some ''Tokenizer''" "entry_kind e c0 = Some Process"
    and "entry_name c1 = Some ''Featurizer''" "entry_kind e c1 = Some TrainProcess"
    and "entry_name c2 = Some ''Classifier''" "entry_kind e c2 = Some Train"
  shows "\<exists>s t. nlu_config_to_train_graph_schema e project cfg None None False
             = Inr (s, ''process_Featurizer_1'')
           \<and> dom s = {''load_data'', ''process_Tokenizer_0'', ''train_Featurizer_1'',
                       ''process_Featurizer_1'', ''train_Classifier_2''}
           \<and> s ''train_Classifier_2'' = Some t
           \<and> needs t = [''training_data'' \<mapsto> ''process_Featurizer_1'']"
proof -
  from entry_kind_pop [OF assms(2,3)] obtain r0 k0 where
    p0: "pop c0 ''name'' = Inr (YStr ''Tokenizer'', r0)"
        "get_component_class e ''Tokenizer'' = Some k0" "meta k0 = Some Process" by blast
  from entry_kind_pop [OF assms(4,5)] obtain r1 k1 where
    p1: "pop c1 ''name'' = Inr (YStr ''Featurizer'', r1)"
        "get_component_class e ''Featurizer'' = Some k1" "meta k1 = Some TrainProcess" by blast
  from entry_kind_pop [OF assms(6,7)] obtain r2 k2 where
    p2: "pop c2 ''name'' = Inr (YStr ''Classifier'', r2)"
        "get_component_class e ''Classifier'' = Some k2" "meta k2 = Some Train" by blast
  let ?g = "[''load_data'' \<mapsto> load_data_task project]
      ++ fst (builder Process k0 ''load_data'' (Some [(''component_config'', YDict r0)])
               (Some ''Tokenizer_0''))
      ++ fst (builder TrainProcess k1 ''process_Tokenizer_0''
               (Some [(''component_config'', YDict r1)]) (Some ''Featurizer_1''))
      ++ fst (builder Train k2 ''process_Featurizer_1''
               (Some [(''component_config'', YDict r2)]) (Some ''Classifier_2''))"
  have r: "nlu_config_to_train_graph_schema e project cfg None None False
      = Inr (fill_defaults ?g, ''process_Featurizer_1'')"
    by (simp add: nlu_eval assms(1) nlu_start_def unique_name_def
        nlu_step_eval [OF p0] nlu_step_eval [OF p1] nlu_step_eval [OF p2])
  have d: "dom (fill_defaults ?g) = {''load_data'', ''process_Tokenizer_0'',
      ''train_Featurizer_1'', ''process_Featurizer_1'', ''train_Classifier_2''}"
    by (auto simp: builder_dom step_tasks_def)
  have t: "fill_defaults ?g ''train_Classifier_2'' =
      Some (fill_task \<lparr>uses = Component k2, fn = ''train'',
              config = [(''component_config'', YDict r2)],
              needs = [''training_data'' \<mapsto> ''process_Featurizer_1''], persist = None\<rparr>)"
    by (simp add: fill_defaults_apply builder_Train_fst config_or_empty_def)
  have n: "needs (fill_task \<lparr>uses = Component k2, fn = ''train'',
              config = [(''component_config'', YDict r2)],
              needs = [''training_data'' \<mapsto> ''process_Featurizer_1''], persist = None\<rparr>)
      = [''training_data'' \<mapsto> ''process_Featurizer_1'']"
    by simp
  from r d t n show ?thesis by blast
qed

lemma scenario_entries [simp]:
  "entries scenario_config ''pipeline'' = Inr scenario_pipeline"
  by (simp add: entries_def scenario_config_def)

lemma scenario_kinds:
  "entry_name (YDict [(''name'', YStr ''Tokenizer'')]) = Some ''Tokenizer''"
  "entry_kind scenario_env (YDict [(''name'', YStr ''Tokenizer'')]) = Some Process"
  "entry_name (YDict [(''name'', YStr ''Featurizer'')]) = Some ''Featurizer''"
  "entry_kind scenario_env (YDict [(''name'', YStr ''Featurizer'')]) = Some TrainProcess"
  "entry_name (YDict [(''name'', YStr ''Classifier'')]) = Some ''Classifier''"
  "entry_kind scenario_env (YDict [(''name'', YStr ''Classifier'')]) = Some Train"
  by (simp_all add: entry_name_def entry_kind_def scenario_env_def scenario_components_def)

lemma scenario_pop:
  "pop (YDict [(''name'', YStr ''Tokenizer'')]) ''name'' = Inr (YStr ''Tokenizer'', [])"
  "pop (YDict [(''name'', YStr ''Featurizer'')]) ''name'' = Inr (YStr ''Featurizer'', [])"
  "pop (YDict [(''name'', YStr ''Classifier'')]) ''name'' = Inr (YStr ''Classifier'', [])"
  "get_component_class scenario_env ''Tokenizer'' = Some WhitespaceTokenizer"
  "get_component_class scenario_env ''Featurizer'' = Some CountVectorsFeaturizer"
  "get_component_class scenario_env ''Classifier'' = Some DIETClassifier"
  by (simp_all add: scenario_env_def scenario_components_def)

lemma scenario_run:
  "\<exists>s. nlu_config_to_train_graph_schema scenario_env ''moodbot'' scenario_config
          None None False = Inr (s, ''process_Featurizer_1'')"
  by (simp add: nlu_eval nlu_start_def unique_name_def scenario_pipeline_def
      nlu_step_eval [OF scenario_pop(1) scenario_pop(4), where step = Process]
      nlu_step_eval [OF scenario_pop(2) scenario_pop(5), where step = TrainProcess]
      nlu_step_eval [OF scenario_pop(3) scenario_pop(6), where step = Train])

theorem scenario_counterexample:
  "\<not> isl (nlu_config_to_train_graph_schema scenario_env ''moodbot'' scenario_config
            None None False)
   \<and> snd (projr (nlu_config_to_train_graph_schema scenario_env ''moodbot'' scenario_config
            None None False)) \<noteq> ''train_Classifier_2''"
proof -
  from scenario_run obtain s where
    "nlu_config_to_train_graph_schema scenario_env ''moodbot'' scenario_config
          None None False = Inr (s, ''process_Featurizer_1'')" by blast
  then show ?thesis by simp
qed

theorem scenario_witness:
  "entries scenario_config ''pipeline'' = Inr scenario_pipeline
   \<and> (\<exists>s t. nlu_config_to_train_graph_schema scenario_env ''moodbot'' scenario_config
                None None False = Inr (s, ''process_Featurizer_1'')
           \<and> dom s = {''load_data'', ''process_Tokenizer_0'', ''train_Featurizer_1'',
                       ''process_Featurizer_1'', ''train_Classifier_2''}
           \<and> s ''train_Classifier_2'' = Some t
           \<and> needs t = [''training_data'' \<mapsto> ''process_Featurizer_1''])"
  using scenario [OF scenario_entries [unfolded scenario_pipeline_def] scenario_kinds,
      of "''moodbot''"]
  by simp

lemma policy_step_Inr:
  assumes "policy_step e i p (g, names, f) = Inr st'"
  shows "\<exists>nm rest cls. pop p ''name'' = Inr (YStr nm, rest) \<and>
     policy_from_module_path e nm = Some cls \<and>
     st' = (g ++ [nm @ ''_'' @ string_of_nat i \<mapsto> compiled_policy_task cls rest],
            names @ [nm @ ''_'' @ string_of_nat i],
            f \<or> ''e2e_features'' \<in> set (train_parameters cls))"
  using assms
  by (auto simp: policy_step_def Let_def compiled_policy_task_def
      split: sum.splits yaml.splits option.splits if_splits)

lemma policy_step_eval:
  assumes "pop p ''name'' = Inr (YStr nm, rest)" "policy_from_module_path e nm = Some cls"
  shows "policy_step e i p (g, names, f) =
     Inr (g ++ [nm @ ''_'' @ string_of_nat i \<mapsto> compiled_policy_task cls rest],
          names @ [nm @ ''_'' @ string_of_nat i],
          f \<or> ''e2e_features'' \<in> set (train_parameters cls))"
  using assms by (simp add: policy_step_def Let_def compiled_policy_task_def)

lemma entry_name_of_pop: "pop p ''name'' = Inr (YStr nm, rest) \<Longrightarrow> entry_name p = Some nm"
  by (simp add: entry_name_def)

lemma policy_loop_names:
  "policy_loop e i ps (g, names, f) = Inr (g', names', f') \<Longrightarrow>
   names' = names @ indexed_names i ps \<and>
   dom g' = dom g \<union> set (indexed_names i ps) \<and>
   (\<forall>k. k \<notin> set (indexed_names i ps) \<longrightarrow> g' k = g k)"
proof (induction ps arbitrary: i g names f)
  case Nil
  then show ?case by simp
next
  case (Cons p ps)
  from Cons.prems obtain st1 where
    s: "policy_step e i p (g, names, f) = Inr st1"
    and l: "policy_loop e (Suc i) ps st1 = Inr (g', names', f')"
    by (auto split: sum.splits)
  from policy_step_Inr [OF s] obtain nm rest cls where
    h: "pop p ''name'' = Inr (YStr nm, rest)"
       "st1 = (g ++ [nm @ ''_'' @ string_of_nat i \<mapsto> compiled_policy_task cls rest],
            names @ [nm @ ''_'' @ string_of_nat i],
            f \<or> ''e2e_features'' \<in> set (train_parameters cls))"
    by blast
  from Cons.IH [OF l [unfolded h(2)]] entry_name_of_pop [OF h(1)]
  show ?case by auto
qed

lemma policy_loop_flag:
  "policy_loop e i ps (g, names, f) = Inr (g', names', f') \<Longrightarrow>
   f' = (f \<or> (\<exists>p \<in> set ps. declares_e2e e p))"
proof (induction ps arbitrary: i g names f)
  case Nil
  then show ?case by simp
next
  case (Cons p ps)
  from Cons.prems obtain st1 where
    s: "policy_step e i p (g, names, f) = Inr st1"
    and l: "policy_loop e (Suc i) ps st1 = Inr (g', names', f')"
    by (auto split: sum.splits)
  from policy_step_Inr [OF s] obtain nm rest cls where
    h: "pop p ''name'' = Inr (YStr nm, rest)" "policy_from_module_path e nm = Some cls"
       "st1 = (g ++ [nm @ ''_'' @ string_of_nat i \<mapsto> compiled_policy_task cls rest],
            names @ [nm @ ''_'' @ string_of_nat i],
            f \<or> ''e2e_features'' \<in> set (train_parameters cls))"
    by blast
  have "declares_e2e e p = (''e2e_features'' \<in> set (train_parameters cls))"
    using entry_name_of_pop [OF h(1)] h(2) by (simp add: declares_e2e_def)
  with Cons.IH [OF l [unfolded h(3)]] show ?case by auto
qed

lemma needs_of_compiled_policy_task:
  "ran (needs (compiled_policy_task cls rest)) \<subseteq>
     {''generate_trackers'', ''load_domain''} \<union>
     (if ''e2e_features'' \<in> set (train_parameters cls) then {''create_e2e_lookup''} else {})"
  by (auto simp: compiled_policy_task_def policy_task_def ran_def split: if_splits)

lemma policy_loop_needs:
  "policy_loop e i ps (g, names, f) = Inr (g', names', f') \<Longrightarrow>
   needs_of g' \<subseteq> needs_of g \<union> {''generate_trackers'', ''load_domain''}
      \<union> (if f' then {''create_e2e_lookup''} else {})"
proof (induction ps arbitrary: i g names f)
  case Nil
  then show ?case by auto
next
  case (Cons p ps)
  from Cons.prems obtain st1 where
    s: "policy_step e i p (g, names, f) = Inr st1"
    and l: "policy_loop e (Suc i) ps st1 = Inr (g', names', f')"
    by (auto split: sum.splits)
  from policy_step_Inr [OF s] obtain nm rest cls where
    h: "st1 = (g ++ [nm @ ''_'' @ string_of_nat i \<mapsto> compiled_policy_task cls rest],
            names @ [nm @ ''_'' @ string_of_nat i],
            f \<or> ''e2e_features'' \<in> set (train_parameters cls))"
    by blast
  let ?g1 = "g ++ [nm @ ''_'' @ string_of_nat i \<mapsto> compiled_policy_task cls rest]"
  have fl: "f' = ((f \<or> ''e2e_features'' \<in> set (train_parameters cls))
      \<or> (\<exists>p \<in> set ps. declares_e2e e p))"
    by (rule policy_loop_flag [OF l [unfolded h]])
  have a: "needs_of ?g1 \<subseteq> needs_of g \<union> ran (needs (compiled_policy_task cls rest))"
    using needs_of_add_subset [of g "[nm @ ''_'' @ string_of_nat i \<mapsto>
      compiled_policy_task cls rest]"] by simp
  have b: "ran (needs (compiled_policy_task cls rest)) \<subseteq>
     {''generate_trackers'', ''load_domain''} \<union> (if f' then {''create_e2e_lookup''} else {})"
    using needs_of_compiled_policy_task [of cls rest] fl by (auto split: if_splits)
  from Cons.IH [OF l [unfolded h]] a b show ?case by blast
qed

lemma core_eval:
  "core_config_to_train_graph_schema e project cfg =
     (case entries cfg ''policies'' of
        Inl err \<Rightarrow> Inl err
      | Inr ps \<Rightarrow>
          (case policy_loop e 0 ps (core_start project, [], False) of
             Inl err \<Rightarrow> Inl err
           | Inr (g, names, f) \<Rightarrow>
               if f then
                 (case nlu_config_to_train_graph_schema e project cfg (Some ''core'')
                         (Some ''convert_stories_for_nlu'') True of
                    Inl err \<Rightarrow> Inl err
                  | Inr (ns, nout) \<Rightarrow>
                      Inr (fill_defaults
                             (((g(''convert_stories_for_nlu'' \<mapsto> convert_stories_task)) ++ ns)
                                (''create_e2e_lookup'' \<mapsto> e2e_lookup_task nout)),
                           names))
               else Inr (fill_defaults g, names)))"
  by (simp add: core_config_to_train_graph_schema_def entries_def split: sum.splits)

lemma core_Inr:
  assumes "core_config_to_train_graph_schema e project cfg = Inr (s, names)"
  shows "\<exists>ps g f. entries cfg ''policies'' = Inr ps \<and>
     policy_loop e 0 ps (core_start project, [], False) = Inr (g, names, f) \<and>
     (if f then
        (\<exists>ns nout. nlu_config_to_train_graph_schema e project cfg (Some ''core'')
              (Some ''convert_stories_for_nlu'') True = Inr (ns, nout) \<and>
           s = fill_defaults (((g(''convert_stories_for_nlu'' \<mapsto> convert_stories_task)) ++ ns)
                 (''create_e2e_lookup'' \<mapsto> e2e_lookup_task nout)))
      else s = fill_defaults g)"
proof -
  from assms obtain ps where p: "entries cfg ''policies'' = Inr ps"
    by (cases "entries cfg ''policies''") (simp_all add: core_eval)
  from assms p obtain g nms f where
    l: "policy_loop e 0 ps (core_start project, [], False) = Inr (g, nms, f)"
    by (cases "policy_loop e 0 ps (core_start project, [], False)")
       (auto simp: core_eval)
  show ?thesis
  proof (cases f)
    case False
    with assms p l show ?thesis
      by (intro exI [of _ ps] exI [of _ g] exI [of _ f]) (auto simp: core_eval)
  next
    case True
    with assms p l obtain ns nout where
      "nlu_config_to_train_graph_schema e project cfg (Some ''core'')
              (Some ''convert_stories_for_nlu'') True = Inr (ns, nout)"
      by (cases "nlu_config_to_train_graph_schema e project cfg (Some ''core'')
              (Some ''convert_stories_for_nlu'') True") (auto simp: core_eval)
    with assms p l True show ?thesis
      by (intro exI [of _ ps] exI [of _ g] exI [of _ f]) (auto simp: core_eval)
  qed
qed

lemma core_start_dom:
  "dom (core_start project) = {''load_domain'', ''load_stories'', ''generate_trackers''}"
  unfolding core_start_def by (simp only: dom_map_upds dom_fun_upd dom_empty option.simps if_False) auto

lemma ran_upd_subset: "ran (g(k \<mapsto> t)) \<subseteq> insert t (ran g)"
  by (auto simp: ran_def split: if_splits)

lemma core_start_needs: "needs_of (core_start project) \<subseteq> {''load_domain'', ''load_stories''}"
proof -
  let ?a = "\<lparr>uses = DomainReader, fn = ''read'', config = [(''project'', YStr project)],
         needs = Map.empty, persist = None\<rparr>"
  let ?b = "\<lparr>uses = StoryGraphReader, fn = ''read'', config = [(''project'', YStr project)],
         needs = Map.empty, persist = Some False\<rparr>"
  let ?c = "\<lparr>uses = TrackerGenerator, fn = ''generate'', config = [],
         needs = [''domain'' \<mapsto> ''load_domain'', ''story_graph'' \<mapsto> ''load_stories''],
         persist = Some False\<rparr>"
  have "needs_of (core_start project) \<subseteq> ran (needs ?a) \<union> ran (needs ?b) \<union> ran (needs ?c)"
    unfolding core_start_def
    using needs_of_upd_subset [of "[''load_domain'' \<mapsto> ?a, ''load_stories'' \<mapsto> ?b]"
        "''generate_trackers''" ?c]
      needs_of_upd_subset [of "[''load_domain'' \<mapsto> ?a]" "''load_stories''" ?b]
      needs_of_upd_subset [of Map.empty "''load_domain''" ?a]
    by (simp only: needs_of_empty) blast
  moreover have "ran (needs ?c) \<subseteq> {''load_domain'', ''load_stories''}"
    using ran_upd_subset [of "[''domain'' \<mapsto> ''load_domain'']" "''story_graph''" "''load_stories''"]
    by simp
  ultimately show ?thesis by (simp add: insert_commute)
qed

lemma ran_needs_convert [simp]: "ran (needs convert_stories_task) = {''load_stories''}"
  by (simp add: convert_stories_task_def)

lemma ran_needs_lookup [simp]: "ran (needs (e2e_lookup_task nout)) = {nout}"
  by (simp add: e2e_lookup_task_def)

lemma closed_sets:
  assumes "N \<subseteq> NG \<union> {l} \<union> NN \<union> {p}" "NG \<subseteq> D3 \<union> {c}" "D3 \<subseteq> G" "l \<in> D3"
    "NN \<subseteq> NS \<union> {v}" "p \<in> NS \<union> {v}"
  shows "N \<subseteq> insert c (insert v (G \<union> NS))"
  using assms by blast

lemma core_closed:
  assumes "core_config_to_train_graph_schema e project cfg = Inr (s, names)"
  shows "dangling s = {}"
proof -
  from core_Inr [OF assms] obtain ps g f where
    l: "policy_loop e 0 ps (core_start project, [], False) = Inr (g, names, f)"
    and r: "if f then
        (\<exists>ns nout. nlu_config_to_train_graph_schema e project cfg (Some ''core'')
              (Some ''convert_stories_for_nlu'') True = Inr (ns, nout) \<and>
           s = fill_defaults (((g(''convert_stories_for_nlu'' \<mapsto> convert_stories_task)) ++ ns)
                 (''create_e2e_lookup'' \<mapsto> e2e_lookup_task nout)))
      else s = fill_defaults g"
    by blast
  from policy_loop_names [OF l] have d: "dom (core_start project) \<subseteq> dom g" by auto
  then have d3: "{''load_domain'', ''load_stories'', ''generate_trackers''} \<subseteq> dom g"
    by (simp add: core_start_dom)
  from policy_loop_needs [OF l] core_start_needs [of project]
  have n: "needs_of g \<subseteq> {''load_domain'', ''load_stories'', ''generate_trackers''}
      \<union> (if f then {''create_e2e_lookup''} else {})"
    by auto
  show ?thesis
  proof (cases f)
    case False
    with r n d3 show ?thesis by (auto simp: dangling_def)
  next
    case True
    with r obtain ns nout where
      u: "nlu_config_to_train_graph_schema e project cfg (Some ''core'')
              (Some ''convert_stories_for_nlu'') True = Inr (ns, nout)"
      and s: "s = fill_defaults (((g(''convert_stories_for_nlu'' \<mapsto> convert_stories_task)) ++ ns)
                 (''create_e2e_lookup'' \<mapsto> e2e_lookup_task nout))"
      by auto
    from nlu_refs [OF u] have
      nn: "needs_of ns \<subseteq> dom ns \<union> {''convert_stories_for_nlu''}"
      and no: "nout \<in> dom ns \<union> {''convert_stories_for_nlu''}"
      by (auto simp: dangling_def)
    let ?g1 = "g(''convert_stories_for_nlu'' \<mapsto> convert_stories_task)"
    have a: "needs_of ?g1 \<subseteq> needs_of g \<union> {''load_stories''}"
      using needs_of_upd_subset [of g "''convert_stories_for_nlu''" convert_stories_task]
      by simp
    have b: "needs_of (?g1 ++ ns) \<subseteq> needs_of ?g1 \<union> needs_of ns"
      by (rule needs_of_add_subset)
    have c: "needs_of ((?g1 ++ ns)(''create_e2e_lookup'' \<mapsto> e2e_lookup_task nout))
        \<subseteq> needs_of (?g1 ++ ns) \<union> {nout}"
      using needs_of_upd_subset [of "?g1 ++ ns" "''create_e2e_lookup''" "e2e_lookup_task nout"]
      by simp
    have ds: "dom s = insert ''create_e2e_lookup''
        (insert ''convert_stories_for_nlu'' (dom g \<union> dom ns))"
      using s by auto
    have n': "needs_of g \<subseteq> {''load_domain'', ''load_stories'', ''generate_trackers''}
        \<union> {''create_e2e_lookup''}"
      using n True by simp
    have l: "''load_stories'' \<in> {''load_domain'', ''load_stories'', ''generate_trackers''}"
      by simp
    have ns: "needs_of s \<subseteq> needs_of g \<union> {''load_stories''} \<union> needs_of ns \<union> {nout}"
      using a b c unfolding s needs_of_fill_defaults by blast
    have "needs_of s \<subseteq> dom s"
      unfolding ds by (rule closed_sets [OF ns n' d3 l nn no])
    then show ?thesis by (simp add: dangling_def)
  qed
qed

lemma old_Inr:
  assumes "old_config_to_graph_schema e project text = Inr (s, outs)"
  shows "\<exists>cfg ns nout cs couts. read_yaml e text = Some cfg \<and>
     nlu_config_to_train_graph_schema e project cfg None None False = Inr (ns, nout) \<and>
     core_config_to_train_graph_schema e project cfg = Inr (cs, couts) \<and>
     s = cs ++ ns \<and> outs = couts @ [nout]"
  using assms
  by (auto simp: old_config_to_graph_schema_def split: option.splits sum.splits prod.splits)

lemma dangling_add:
  assumes "dangling a = {}" "dangling b = {}"
  shows "dangling (a ++ b) = {}"
proof -
  have "needs_of (a ++ b) \<subseteq> needs_of a \<union> needs_of b" by (rule needs_of_add_subset)
  with assms show ?thesis by (auto simp: dangling_def)
qed

text \<open>
  C1, as amended: every schema the Core compiler or the top-level merge returns is
  referentially closed, and so is every schema the NLU compiler returns when no external
  input task is supplied; with an external input task, the only name a returned NLU schema
  may refer to without having it as a key is that input task.
\<close>

theorem referential_closure:
  "(nlu_config_to_train_graph_schema e project cfg ns None op = Inr (s1, out1)
      \<longrightarrow> dangling s1 = {})
   \<and> (nlu_config_to_train_graph_schema e project cfg ns (Some t) op = Inr (s2, out2)
      \<longrightarrow> dangling s2 \<subseteq> {t})
   \<and> (core_config_to_train_graph_schema e project cfg = Inr (s3, names)
      \<longrightarrow> dangling s3 = {})
   \<and> (old_config_to_graph_schema e project text = Inr (s4, outs)
      \<longrightarrow> dangling s4 = {})"
proof (intro conjI impI)
  assume "nlu_config_to_train_graph_schema e project cfg ns None op = Inr (s1, out1)"
  from nlu_refs(1) [OF this] show "dangling s1 = {}" by simp
next
  assume "nlu_config_to_train_graph_schema e project cfg ns (Some t) op = Inr (s2, out2)"
  from nlu_refs(1) [OF this] show "dangling s2 \<subseteq> {t}" by simp
next
  assume "core_config_to_train_graph_schema e project cfg = Inr (s3, names)"
  then show "dangling s3 = {}" by (rule core_closed)
next
  assume "old_config_to_graph_schema e project text = Inr (s4, outs)"
  from old_Inr [OF this] obtain c nsch nout cs couts where
    n: "nlu_config_to_train_graph_schema e project c None None False = Inr (nsch, nout)"
    and k: "core_config_to_train_graph_schema e project c = Inr (cs, couts)"
    and s: "s4 = cs ++ nsch" by blast
  from nlu_refs(1) [OF n] have "dangling nsch = {}" by simp
  with core_closed [OF k] s show "dangling s4 = {}" by (simp add: dangling_add)
qed

lemma example_config_entries [simp]:
  "entries example_config ''pipeline'' = Inr [tokenizer_entry, classifier_entry]"
  "entries example_config ''policies'' = Inr [memoization_entry, ted_entry]"
  by (simp_all add: entries_def example_config_def)

lemma pop_policy_examples [simp]:
  "pop memoization_entry ''name'' = Inr (YStr ''MemoizationPolicy'', [])"
  "pop ted_entry ''name'' = Inr (YStr ''TEDPolicy'', [(''epochs'', YInt 10)])"
  by (simp_all add: memoization_entry_def ted_entry_def)

lemma registered_policies_simps [simp]:
  "registered_policies ''MemoizationPolicy''
     = Some (PolicyClass ''MemoizationPolicy'' [''self'', ''training_trackers'', ''domain''])"
  "registered_policies ''TEDPolicy''
     = Some (PolicyClass ''TEDPolicy''
               [''self'', ''training_trackers'', ''domain'', ''e2e_features''])"
  by (simp_all add: registered_policies_def)

lemma read_yaml_example [simp]: "read_yaml example_env example_text = Some example_config"
  by (simp add: example_env_def)

lemma nlu_example_top:
  "\<exists>s. nlu_config_to_train_graph_schema example_env ''moodbot'' example_config
          None None False = Inr (s, ''process_WhitespaceTokenizer_0'')"
  by (simp add: nlu_eval nlu_start_def unique_name_def
      nlu_step_eval [where step = Train and cls = DIETClassifier]
      nlu_step_eval [where step = Process and cls = WhitespaceTokenizer])

lemma nlu_example_sub:
  "nlu_config_to_train_graph_schema example_env ''moodbot'' example_config
     (Some ''core'') (Some ''convert_stories_for_nlu'') True
   = Inr (fill_defaults (fst (builder Process WhitespaceTokenizer ''convert_stories_for_nlu''
            (Some [(''component_config'', YDict [])]) (Some ''core_WhitespaceTokenizer_0''))),
          ''process_core_WhitespaceTokenizer_0'')"
  by (simp add: nlu_eval nlu_start_def unique_name_def
      nlu_step_eval [where step = Train and cls = DIETClassifier]
      nlu_step_eval [where step = Process and cls = WhitespaceTokenizer])

lemma policy_loop_example:
  "\<exists>g. policy_loop example_env 0 [memoization_entry, ted_entry]
          (core_start ''moodbot'', [], False)
        = Inr (g, [''MemoizationPolicy_0'', ''TEDPolicy_1''], True)"
  by (simp add: policy_step_eval [OF pop_policy_examples(1)]
      policy_step_eval [OF pop_policy_examples(2)])

lemma core_example:
  "\<exists>s. core_config_to_train_graph_schema example_env ''moodbot'' example_config
        = Inr (s, [''MemoizationPolicy_0'', ''TEDPolicy_1''])"
proof -
  from policy_loop_example obtain g where
    "policy_loop example_env 0 [memoization_entry, ted_entry]
          (core_start ''moodbot'', [], False)
        = Inr (g, [''MemoizationPolicy_0'', ''TEDPolicy_1''], True)" by blast
  then show ?thesis by (simp add: core_eval nlu_example_sub)
qed

lemma old_example:
  "\<exists>s. old_config_to_graph_schema example_env ''moodbot'' example_text
        = Inr (s, [''MemoizationPolicy_0'', ''TEDPolicy_1'', ''process_WhitespaceTokenizer_0''])"
proof -
  from nlu_example_top obtain ns where
    n: "nlu_config_to_train_graph_schema example_env ''moodbot'' example_config
          None None False = Inr (ns, ''process_WhitespaceTokenizer_0'')" by blast
  from core_example obtain cs where
    c: "core_config_to_train_graph_schema example_env ''moodbot'' example_config
        = Inr (cs, [''MemoizationPolicy_0'', ''TEDPolicy_1''])" by blast
  show ?thesis by (simp add: old_config_to_graph_schema_def n c)
qed

theorem referential_closure_counterexample:
  "\<not> isl (nlu_config_to_train_graph_schema example_env ''moodbot'' example_config
            (Some ''core'') (Some ''convert_stories_for_nlu'') True)
   \<and> ''convert_stories_for_nlu''
       \<in> dangling (fst (projr (nlu_config_to_train_graph_schema example_env ''moodbot''
            example_config (Some ''core'') (Some ''convert_stories_for_nlu'') True)))"
  by (simp add: nlu_example_sub dangling_def builder_Process_fst)

theorem referential_closure_witness:
  "(\<exists>s. nlu_config_to_train_graph_schema example_env ''moodbot'' example_config
          None None False = Inr (s, ''process_WhitespaceTokenizer_0'') \<and> dangling s = {})
   \<and> (\<exists>s. nlu_config_to_train_graph_schema example_env ''moodbot'' example_config
          (Some ''core'') (Some ''convert_stories_for_nlu'') True
            = Inr (s, ''process_core_WhitespaceTokenizer_0'')
          \<and> dangling s \<subseteq> {''convert_stories_for_nlu''})
   \<and> (\<exists>s. core_config_to_train_graph_schema example_env ''moodbot'' example_config
            = Inr (s, [''MemoizationPolicy_0'', ''TEDPolicy_1'']) \<and> dangling s = {})
   \<and> (\<exists>s. old_config_to_graph_schema example_env ''moodbot'' example_text
            = Inr (s, [''MemoizationPolicy_0'', ''TEDPolicy_1'',
                       ''process_WhitespaceTokenizer_0''])
          \<and> dangling s = {})"
proof -
  from nlu_example_top obtain s1 where
    a: "nlu_config_to_train_graph_schema example_env ''moodbot'' example_config
          None None False = Inr (s1, ''process_WhitespaceTokenizer_0'')" by blast
  from nlu_example_sub obtain s2 where
    b: "nlu_config_to_train_graph_schema example_env ''moodbot'' example_config
          (Some ''core'') (Some ''convert_stories_for_nlu'') True
            = Inr (s2, ''process_core_WhitespaceTokenizer_0'')" by blast
  from core_example obtain s3 where
    c: "core_config_to_train_graph_schema example_env ''moodbot'' example_config
            = Inr (s3, [''MemoizationPolicy_0'', ''TEDPolicy_1''])" by blast
  from old_example obtain s4 where
    d: "old_config_to_graph_schema example_env ''moodbot'' example_text
            = Inr (s4, [''MemoizationPolicy_0'', ''TEDPolicy_1'',
                       ''process_WhitespaceTokenizer_0''])" by blast
  note r = referential_closure [of example_env "''moodbot''" example_config _ _ _ _
      "''convert_stories_for_nlu''" _ _ _ _ example_text]
  from r [of None False s1 "''process_WhitespaceTokenizer_0''"] a
  have 1: "dangling s1 = {}" by blast
  from r [of "Some ''core''" True _ _ s2 "''process_core_WhitespaceTokenizer_0''"] b
  have 2: "dangling s2 \<subseteq> {''convert_stories_for_nlu''}" by blast
  from r [of _ _ _ _ _ _ s3 "[''MemoizationPolicy_0'', ''TEDPolicy_1'']"] c
  have 3: "dangling s3 = {}" by blast
  from r [of _ _ _ _ _ _ _ _ s4 "[''MemoizationPolicy_0'', ''TEDPolicy_1'',
                       ''process_WhitespaceTokenizer_0'']"] d
  have 4: "dangling s4 = {}" by blast
  from a b c d 1 2 3 4 show ?thesis by blast
qed

lemma last_indexed: "is_digit (last (nm @ ''_'' @ string_of_nat j))"
proof -
  have "last (nm @ ''_'' @ string_of_nat j) = last (string_of_nat j)"
    by (simp add: string_of_nat_nonempty)
  moreover have "last (string_of_nat j) \<in> set (string_of_nat j)"
    by (simp add: string_of_nat_nonempty)
  ultimately show ?thesis using string_of_nat_digits by simp
qed

lemma indexed_names_later:
  "i < j \<Longrightarrow> nm @ ''_'' @ string_of_nat i \<notin> set (indexed_names j ps)"
proof (induction ps arbitrary: j)
  case Nil
  then show ?case by simp
next
  case (Cons p ps)
  have "nm @ ''_'' @ string_of_nat i \<noteq>
      (case entry_name p of None \<Rightarrow> [] | Some n \<Rightarrow> n @ ''_'' @ string_of_nat j)"
  proof (cases "entry_name p")
    case None
    then show ?thesis by simp
  next
    case (Some n)
    from Cons.prems indexed_name_inj [of nm i n j] show ?thesis
      unfolding Some by auto
  qed
  with Cons.IH [of "Suc j"] Cons.prems show ?case by simp
qed

lemma policy_loop_task:
  "policy_loop e i ps (g, names, f) = Inr (g', names', f') \<Longrightarrow> k < length ps \<Longrightarrow>
   \<exists>nm rest cls. pop (ps ! k) ''name'' = Inr (YStr nm, rest) \<and>
     policy_from_module_path e nm = Some cls \<and>
     indexed_names i ps ! k = nm @ ''_'' @ string_of_nat (i + k) \<and>
     g' (nm @ ''_'' @ string_of_nat (i + k)) = Some (compiled_policy_task cls rest)"
proof (induction ps arbitrary: i g names f k)
  case Nil
  then show ?case by simp
next
  case (Cons p ps)
  from Cons.prems(1) obtain st1 where
    s: "policy_step e i p (g, names, f) = Inr st1"
    and l: "policy_loop e (Suc i) ps st1 = Inr (g', names', f')"
    by (auto split: sum.splits)
  from policy_step_Inr [OF s] obtain nm rest cls where
    h: "pop p ''name'' = Inr (YStr nm, rest)" "policy_from_module_path e nm = Some cls"
       "st1 = (g ++ [nm @ ''_'' @ string_of_nat i \<mapsto> compiled_policy_task cls rest],
            names @ [nm @ ''_'' @ string_of_nat i],
            f \<or> ''e2e_features'' \<in> set (train_parameters cls))"
    by blast
  note l' = l [unfolded h(3)]
  show ?case
  proof (cases k)
    case 0
    have "nm @ ''_'' @ string_of_nat i \<notin> set (indexed_names (Suc i) ps)"
      by (rule indexed_names_later) simp
    with policy_loop_names [OF l']
    have "g' (nm @ ''_'' @ string_of_nat i) = Some (compiled_policy_task cls rest)"
      by simp
    with h(1,2) 0 entry_name_of_pop [OF h(1)] show ?thesis by simp
  next
    case (Suc k')
    with Cons.prems(2) have "k' < length ps" by simp
    from Cons.IH [OF l' this] Suc show ?thesis by simp
  qed
qed

lemma policy_loop_names_length:
  "length (indexed_names i ps) = length ps"
  by (induction ps arbitrary: i) simp_all

lemma policy_loop_names_digit:
  "policy_loop e i ps (g, names, f) = Inr (g', names', f') \<Longrightarrow>
   x \<in> set (indexed_names i ps) \<Longrightarrow> x \<noteq> [] \<and> is_digit (last x)"
proof -
  assume l: "policy_loop e i ps (g, names, f) = Inr (g', names', f')"
    and x: "x \<in> set (indexed_names i ps)"
  from x obtain k where k: "k < length ps" "indexed_names i ps ! k = x"
    by (auto simp: in_set_conv_nth policy_loop_names_length)
  from policy_loop_task [OF l k(1)] k(2) obtain nm where
    "x = nm @ ''_'' @ string_of_nat (i + k)" by auto
  then show ?thesis using last_indexed [of nm "i + k"] by simp
qed

text \<open>The keys of an NLU schema are \<open>load_data\<close> or begin with \<open>train_\<close> or \<open>process_\<close>.\<close>

lemma entry_tasks_prefix:
  assumes "x \<in> entry_tasks e ns op j c"
  shows "\<exists>u. x = ''train_'' @ u \<or> x = ''process_'' @ u"
proof -
  from entry_tasks_form [OF assms] obtain nm step where
    "x \<in> step_tasks step (unique_name ns nm j)" by blast
  from step_tasks_form [OF this] show ?thesis by blast
qed

lemma nlu_keys_prefix:
  assumes "nlu_config_to_train_graph_schema e project cfg ns input_task op = Inr (s, out)"
    and "x \<in> dom s"
  shows "x = ''load_data'' \<or> (\<exists>u. x = ''train_'' @ u \<or> x = ''process_'' @ u)"
proof -
  from nlu_Inr [OF assms(1)] obtain pipeline where
    p: "entries cfg ''pipeline'' = Inr pipeline" by blast
  from nlu_dom [OF assms(1) p] assms(2) nlu_start_dom [of project input_task]
  have "x = ''load_data'' \<or> (\<exists>k. x \<in> entry_tasks e ns op k (pipeline ! k))" by auto
  with entry_tasks_prefix show ?thesis by blast
qed

lemma sub_nlu_keys_prefix:
  assumes "nlu_config_to_train_graph_schema e project cfg (Some ''core'')
             (Some ''convert_stories_for_nlu'') True = Inr (s, out)"
    and "x \<in> dom s"
  shows "\<exists>u. x = ''train_'' @ u \<or> x = ''process_'' @ u"
proof -
  from nlu_Inr [OF assms(1)] obtain pipeline where
    p: "entries cfg ''pipeline'' = Inr pipeline" by blast
  have "dom (fst (nlu_start project (Some ''convert_stories_for_nlu''))) = {}"
    by (simp add: nlu_start_def)
  with nlu_dom [OF assms(1) p] assms(2)
  have "\<exists>k. x \<in> entry_tasks e (Some ''core'') True k (pipeline ! k)" by auto
  with entry_tasks_prefix show ?thesis by blast
qed

lemma indexed_neq:
  "\<not> is_digit (last x) \<Longrightarrow> nm @ ''_'' @ string_of_nat j \<noteq> x"
  using last_indexed [of nm j] by auto

lemma fixed_names_not_indexed:
  "nm @ ''_'' @ string_of_nat j \<noteq> ''convert_stories_for_nlu''"
  "nm @ ''_'' @ string_of_nat j \<noteq> ''create_e2e_lookup''"
  "nm @ ''_'' @ string_of_nat j \<noteq> ''load_domain''"
  "nm @ ''_'' @ string_of_nat j \<noteq> ''load_stories''"
  "nm @ ''_'' @ string_of_nat j \<noteq> ''generate_trackers''"
  "nm @ ''_'' @ string_of_nat j \<noteq> ''load_data''"
  by (rule indexed_neq, simp add: is_digit_def)+

lemma map_add_upd_other:
  "k \<noteq> a \<Longrightarrow> k \<noteq> b \<Longrightarrow> k \<notin> dom ns \<Longrightarrow>
   fill_defaults (((g(a \<mapsto> x)) ++ ns)(b \<mapsto> y)) k = map_option fill_task (g k)"
  by (auto simp: fill_defaults_def map_add_def split: option.splits)

lemma core_policy_task:
  assumes c: "core_config_to_train_graph_schema e project cfg = Inr (s, names)"
    and p: "entries cfg ''policies'' = Inr ps"
    and i: "i < length ps"
    and h: "(\<exists>p \<in> set ps. declares_e2e e p) \<longrightarrow> names ! i \<notin> sub_nlu_keys e project cfg"
  shows "\<exists>nm rest cls. pop (ps ! i) ''name'' = Inr (YStr nm, rest) \<and>
     policy_from_module_path e nm = Some cls \<and>
     names ! i = nm @ ''_'' @ string_of_nat i \<and>
     s (names ! i) = Some (fill_task (compiled_policy_task cls rest))"
proof -
  from core_Inr [OF c] p obtain g f where
    l: "policy_loop e 0 ps (core_start project, [], False) = Inr (g, names, f)"
    and r: "if f then
        (\<exists>ns nout. nlu_config_to_train_graph_schema e project cfg (Some ''core'')
              (Some ''convert_stories_for_nlu'') True = Inr (ns, nout) \<and>
           s = fill_defaults (((g(''convert_stories_for_nlu'' \<mapsto> convert_stories_task)) ++ ns)
                 (''create_e2e_lookup'' \<mapsto> e2e_lookup_task nout)))
      else s = fill_defaults g"
    by auto
  from policy_loop_names [OF l] have n: "names = indexed_names 0 ps" by simp
  from policy_loop_flag [OF l] have f: "f = (\<exists>p \<in> set ps. declares_e2e e p)" by simp
  from policy_loop_task [OF l i] n obtain nm rest cls where
    t: "pop (ps ! i) ''name'' = Inr (YStr nm, rest)" "policy_from_module_path e nm = Some cls"
       "names ! i = nm @ ''_'' @ string_of_nat i"
       "g (nm @ ''_'' @ string_of_nat i) = Some (compiled_policy_task cls rest)"
    by auto
  have "s (names ! i) = Some (fill_task (compiled_policy_task cls rest))"
  proof (cases f)
    case False
    with r t(3,4) show ?thesis by (simp add: fill_defaults_apply)
  next
    case True
    with r obtain ns nout where
      u: "nlu_config_to_train_graph_schema e project cfg (Some ''core'')
              (Some ''convert_stories_for_nlu'') True = Inr (ns, nout)"
      and s: "s = fill_defaults (((g(''convert_stories_for_nlu'' \<mapsto> convert_stories_task)) ++ ns)
                 (''create_e2e_lookup'' \<mapsto> e2e_lookup_task nout))"
      by auto
    from h f True u have "names ! i \<notin> dom ns" by (simp add: sub_nlu_keys_def)
    with t(3) have d: "nm @ ''_'' @ string_of_nat i \<notin> dom ns" by simp
    show ?thesis unfolding s t(3)
      by (simp only: map_add_upd_other [OF fixed_names_not_indexed(1,2) d] t(4) option.map)
  qed
  with t show ?thesis by blast
qed

lemma fill_compiled_policy_task:
  "fill_task (compiled_policy_task cls rest) =
     \<lparr>uses = Policy cls, fn = ''train'', config = rest,
      needs = (if ''e2e_features'' \<in> set (train_parameters cls)
               then [''training_trackers'' \<mapsto> ''generate_trackers'',
                     ''domain'' \<mapsto> ''load_domain'',
                     ''e2e_features'' \<mapsto> ''create_e2e_lookup'']
               else [''training_trackers'' \<mapsto> ''generate_trackers'',
                     ''domain'' \<mapsto> ''load_domain'']),
      persist = Some True\<rparr>"
  by (simp add: fill_task_def compiled_policy_task_def policy_task_def)

lemma train_component_dom:
  "dom (fst (train_component c inp cfgo name tf ip)) = {''train_'' @ name_or_class name c}"
  by (simp add: train_component_def Let_def)

lemma dom_e2e_schema:
  "dom (fill_defaults (((g(a \<mapsto> x)) ++ ns)(b \<mapsto> y))) = insert b (insert a (dom g \<union> dom ns))"
  by auto

lemma core_dom_sets:
  assumes "S = G \<or> S = insert a (insert b (G \<union> K))" "G = F \<union> N"
  shows "N \<subseteq> S" and "F \<subseteq> F' \<Longrightarrow> S \<subseteq> insert a (insert b F') \<union> N \<union> K"
  using assms by blast+

lemma core_dom:
  assumes "core_config_to_train_graph_schema e project cfg = Inr (s, names)"
  shows "set names \<subseteq> dom s"
    and "dom s \<subseteq> insert ''create_e2e_lookup'' (insert ''convert_stories_for_nlu''
                    {''load_domain'', ''load_stories'', ''generate_trackers''})
                  \<union> set names \<union> sub_nlu_keys e project cfg"
proof -
  from core_Inr [OF assms] obtain ps g f where
    l: "policy_loop e 0 ps (core_start project, [], False) = Inr (g, names, f)"
    and r: "if f then
        (\<exists>ns nout. nlu_config_to_train_graph_schema e project cfg (Some ''core'')
              (Some ''convert_stories_for_nlu'') True = Inr (ns, nout) \<and>
           s = fill_defaults (((g(''convert_stories_for_nlu'' \<mapsto> convert_stories_task)) ++ ns)
                 (''create_e2e_lookup'' \<mapsto> e2e_lookup_task nout)))
      else s = fill_defaults g"
    by blast
  from policy_loop_names [OF l]
  have n: "names = indexed_names 0 ps"
    and d: "dom g = dom (core_start project) \<union> set (indexed_names 0 ps)" by simp_all
  have dg: "dom g = {''load_domain'', ''load_stories'', ''generate_trackers''} \<union> set names"
    unfolding d n core_start_dom ..
  have sg': "dom s = dom g \<or> dom s = insert ''create_e2e_lookup''
      (insert ''convert_stories_for_nlu'' (dom g \<union> sub_nlu_keys e project cfg))"
  proof (cases f)
    case False
    with r have "s = fill_defaults g" by simp
    then have "dom s = dom g" by simp
    then show ?thesis by (rule disjI1)
  next
    case True
    with r obtain ns nout where
      u: "nlu_config_to_train_graph_schema e project cfg (Some ''core'')
              (Some ''convert_stories_for_nlu'') True = Inr (ns, nout)"
      and s: "s = fill_defaults (((g(''convert_stories_for_nlu'' \<mapsto> convert_stories_task)) ++ ns)
                 (''create_e2e_lookup'' \<mapsto> e2e_lookup_task nout))"
      by auto
    have k: "sub_nlu_keys e project cfg = dom ns" by (simp add: sub_nlu_keys_def u)
    have "dom s = insert ''create_e2e_lookup''
        (insert ''convert_stories_for_nlu'' (dom g \<union> dom ns))"
      unfolding s by (rule dom_e2e_schema)
    then show ?thesis unfolding k by (rule disjI2)
  qed
  show "set names \<subseteq> dom s"
    by (rule core_dom_sets(1) [OF sg' dg])
  show "dom s \<subseteq> insert ''create_e2e_lookup'' (insert ''convert_stories_for_nlu''
                    {''load_domain'', ''load_stories'', ''generate_trackers''})
                  \<union> set names \<union> sub_nlu_keys e project cfg"
    by (rule core_dom_sets(2) [OF sg' dg]) (rule subset_refl)
qed

text \<open>
  C7, as amended: for every policy list, the task the Core compiler emits for the policy
  at index \<open>i\<close> is stored under the name \<open><policy-name>_<i>\<close>, the name returned in the
  output list, and not under the name \<open>train_<policy-name>_<i>\<close> that the train-only
  builder forms; it uses the policy class, has fn \<open>train\<close>, the entry without its name as
  config, and the needs training_trackers from generate_trackers and domain from
  load_domain, with e2e_features from create_e2e_lookup added when the class declares that
  parameter. The returned schema holds it unless the NLU sub-compile of an E2E-enabled
  compile emits a task of the same name.
\<close>

theorem core_policy_folding:
  assumes "core_config_to_train_graph_schema e project cfg = Inr (s, names)"
    and "entries cfg ''policies'' = Inr ps"
    and "i < length ps"
    and "(\<exists>p \<in> set ps. declares_e2e e p) \<longrightarrow> names ! i \<notin> sub_nlu_keys e project cfg"
  shows "\<exists>nm rest cls. pop (ps ! i) ''name'' = Inr (YStr nm, rest) \<and>
     policy_from_module_path e nm = Some cls \<and>
     names ! i = nm @ ''_'' @ string_of_nat i \<and>
     names ! i \<notin> dom (fst (train_component c inp cfgo (Some (names ! i)) tf ip)) \<and>
     s (names ! i) =
       Some \<lparr>uses = Policy cls, fn = ''train'', config = rest,
             needs = (if ''e2e_features'' \<in> set (train_parameters cls)
                      then [''training_trackers'' \<mapsto> ''generate_trackers'',
                            ''domain'' \<mapsto> ''load_domain'',
                            ''e2e_features'' \<mapsto> ''create_e2e_lookup'']
                      else [''training_trackers'' \<mapsto> ''generate_trackers'',
                            ''domain'' \<mapsto> ''load_domain'']),
             persist = Some True\<rparr>"
proof -
  from core_policy_task [OF assms] obtain nm rest cls where
    t: "pop (ps ! i) ''name'' = Inr (YStr nm, rest)" "policy_from_module_path e nm = Some cls"
       "names ! i = nm @ ''_'' @ string_of_nat i"
       "s (names ! i) = Some (fill_task (compiled_policy_task cls rest))"
    by blast
  have "names ! i \<notin> dom (fst (train_component c inp cfgo (Some (names ! i)) tf ip))"
    unfolding t(3) train_component_dom by (simp add: name_or_class_def)
  with t show ?thesis unfolding fill_compiled_policy_task by blast
qed

lemma sub_nlu_keys_example:
  "sub_nlu_keys example_env ''moodbot'' example_config = {''process_core_WhitespaceTokenizer_0''}"
  by (simp add: sub_nlu_keys_def nlu_example_sub builder_Process_fst)

theorem core_policy_folding_counterexample:
  "\<not> isl (core_config_to_train_graph_schema example_env ''moodbot'' example_config)
   \<and> fst (projr (core_config_to_train_graph_schema example_env ''moodbot'' example_config))
        ''train_MemoizationPolicy_0'' = None
   \<and> fst (projr (core_config_to_train_graph_schema example_env ''moodbot'' example_config))
        ''MemoizationPolicy_0'' \<noteq> None"
proof -
  from core_example obtain s where
    c: "core_config_to_train_graph_schema example_env ''moodbot'' example_config
        = Inr (s, [''MemoizationPolicy_0'', ''TEDPolicy_1''])" by blast
  have a: "''MemoizationPolicy_0'' \<in> dom s"
    using core_dom(1) [OF c] by simp
  have "''train_MemoizationPolicy_0'' \<notin>
      insert ''create_e2e_lookup'' (insert ''convert_stories_for_nlu''
        {''load_domain'', ''load_stories'', ''generate_trackers''})
      \<union> set [''MemoizationPolicy_0'', ''TEDPolicy_1'']
      \<union> sub_nlu_keys example_env ''moodbot'' example_config"
    unfolding sub_nlu_keys_example by simp
  with core_dom(2) [OF c] have b: "''train_MemoizationPolicy_0'' \<notin> dom s"
    by (rule contra_subsetD)
  from a b have "s ''train_MemoizationPolicy_0'' = None" "s ''MemoizationPolicy_0'' \<noteq> None"
    by (simp_all add: domIff)
  with c show ?thesis by simp
qed

theorem core_policy_folding_witness:
  "\<exists>s. core_config_to_train_graph_schema example_env ''moodbot'' example_config
          = Inr (s, [''MemoizationPolicy_0'', ''TEDPolicy_1''])
      \<and> entries example_config ''policies'' = Inr [memoization_entry, ted_entry]
      \<and> [''MemoizationPolicy_0'', ''TEDPolicy_1''] ! 1
           \<notin> sub_nlu_keys example_env ''moodbot'' example_config
      \<and> s ''TEDPolicy_1'' =
          Some \<lparr>uses = Policy (PolicyClass ''TEDPolicy''
                    [''self'', ''training_trackers'', ''domain'', ''e2e_features'']),
                fn = ''train'', config = [(''epochs'', YInt 10)],
                needs = [''training_trackers'' \<mapsto> ''generate_trackers'',
                         ''domain'' \<mapsto> ''load_domain'',
                         ''e2e_features'' \<mapsto> ''create_e2e_lookup''],
                persist = Some True\<rparr>"
proof -
  from core_example obtain s where
    c: "core_config_to_train_graph_schema example_env ''moodbot'' example_config
        = Inr (s, [''MemoizationPolicy_0'', ''TEDPolicy_1''])" by blast
  have p: "entries example_config ''policies'' = Inr [memoization_entry, ted_entry]" by simp
  have i: "1 < length [memoization_entry, ted_entry]" by simp
  have h: "(\<exists>p \<in> set [memoization_entry, ted_entry]. declares_e2e example_env p) \<longrightarrow>
      [''MemoizationPolicy_0'', ''TEDPolicy_1''] ! 1
        \<notin> sub_nlu_keys example_env ''moodbot'' example_config"
    by (simp add: sub_nlu_keys_example)
  from core_policy_folding [OF c p i h, of WhitespaceTokenizer "''x''" None "''train''"
      "''training_data''"]
  obtain nm rest cls where
    t: "pop ([memoization_entry, ted_entry] ! 1) ''name'' = Inr (YStr nm, rest)"
       "policy_from_module_path example_env nm = Some cls"
       "s ([''MemoizationPolicy_0'', ''TEDPolicy_1''] ! 1) =
          Some \<lparr>uses = Policy cls, fn = ''train'', config = rest,
             needs = (if ''e2e_features'' \<in> set (train_parameters cls)
                      then [''training_trackers'' \<mapsto> ''generate_trackers'',
                            ''domain'' \<mapsto> ''load_domain'',
                            ''e2e_features'' \<mapsto> ''create_e2e_lookup'']
                      else [''training_trackers'' \<mapsto> ''generate_trackers'',
                            ''domain'' \<mapsto> ''load_domain'']),
             persist = Some True\<rparr>"
    by blast
  from t(1) have nm: "nm = ''TEDPolicy''" and rest: "rest = [(''epochs'', YInt 10)]"
    by simp_all
  from t(2) have cls: "cls = PolicyClass ''TEDPolicy''
                    [''self'', ''training_trackers'', ''domain'', ''e2e_features'']"
    unfolding nm by simp
  have k: "[''MemoizationPolicy_0'', ''TEDPolicy_1''] ! 1 = ''TEDPolicy_1''" by simp
  have m: "''e2e_features'' \<in> set (train_parameters (PolicyClass ''TEDPolicy''
                    [''self'', ''training_trackers'', ''domain'', ''e2e_features'']))"
    by simp
  have u: "[''MemoizationPolicy_0'', ''TEDPolicy_1''] ! 1
           \<notin> sub_nlu_keys example_env ''moodbot'' example_config"
    unfolding k sub_nlu_keys_example by simp
  from t(3) have v: "s ''TEDPolicy_1'' =
          Some \<lparr>uses = Policy (PolicyClass ''TEDPolicy''
                    [''self'', ''training_trackers'', ''domain'', ''e2e_features'']),
                fn = ''train'', config = [(''epochs'', YInt 10)],
                needs = [''training_trackers'' \<mapsto> ''generate_trackers'',
                         ''domain'' \<mapsto> ''load_domain'',
                         ''e2e_features'' \<mapsto> ''create_e2e_lookup''],
                persist = Some True\<rparr>"
    unfolding k rest cls by (simp only: m if_True)
  show ?thesis by (rule exI [of _ s]) (intro conjI c p u v)
qed

end
